theory Spec2Isabelle
  imports Complex_Main "HOL-Library.Multiset"
begin

section \<open>Strings, characters and exceptions of the interpreter\<close>

text \<open>
  A Python \<open>str\<close> is a sequence of Unicode code points; it is modelled as a list of
  natural numbers, one per code point.  An ASCII literal of the source is written
  \<open>ustr ''...''\<close>; a literal with a character beyond ASCII gives that code point as a
  number (the letter e with acute accent of the skip list is code point 233).
\<close>

type_synonym pystr = "nat list"

definition ustr :: "string \<Rightarrow> pystr" where
  "ustr s = map of_char s"

text \<open>
  \<open>str.isspace\<close>, \<open>str.split()\<close>, \<open>str.strip()\<close> and the class \<open>\s\<close> of \<open>re\<close> on
  a \<open>str\<close> pattern all use the same set of white-space code points.
\<close>

definition py_isspace :: "nat \<Rightarrow> bool" where
  "py_isspace c \<longleftrightarrow>
     List.member [9, 10, 11, 12, 13, 28, 29, 30, 31, 32, 133, 160, 5760,
                  8232, 8233, 8239, 8287, 12288] c
     \<or> (8192 \<le> c \<and> c \<le> 8202)"

text \<open>
  The class \<open>\d\<close> of \<open>re\<close> on a \<open>str\<close> pattern is the Unicode category Nd, and \<open>int\<close>
  reads every such digit.  The decimal digits come in runs of ten consecutive code
  points; \<open>decimal_runs\<close> lists the code point of the digit zero of every run
  (Unicode 14.0).
\<close>

definition decimal_runs :: "nat list" where
  "decimal_runs =
     [48, 1632, 1776, 1984, 2406, 2534, 2662, 2790, 2918, 3046, 3174, 3302, 3430, 3558,
      3664, 3792, 3872, 4160, 4240, 6112, 6160, 6470, 6608, 6784, 6800, 6992, 7088, 7232,
      7248, 42528, 43216, 43264, 43472, 43504, 43600, 44016, 65296, 66720, 68912, 69734,
      69872, 69942, 70096, 70384, 70736, 70864, 71248, 71360, 71472, 71904, 72016, 72784,
      73040, 73120, 92768, 92864, 93008, 120782, 120792, 120802, 120812, 120822, 123200,
      123632, 125264, 130032]"

definition py_decimal :: "nat \<Rightarrow> nat option" where
  "py_decimal c =
     (case filter (\<lambda>z. z \<le> c \<and> c < z + 10) decimal_runs of
        [] \<Rightarrow> None
      | z # _ \<Rightarrow> Some (c - z))"

text \<open>
  The exceptions that the modelled code raises itself or lets through from the
  libraries it calls.  \<open>RequestsError\<close> stands for \<open>requests.RequestException\<close> and its
  subclasses (\<open>requests.HTTPError\<close> among them), \<open>UrllibHTTPError\<close> for
  \<open>urllib.error.HTTPError\<close>, \<open>UrllibURLError\<close> for a \<open>urllib.error.URLError\<close> that is not
  an \<open>HTTPError\<close>, \<open>SocketError\<close> for a socket-level \<open>OSError\<close>, and \<open>OtherError\<close> for any
  other exception of a library.
\<close>

datatype exc =
    AttributeError
  | IndexError
  | ValueError
  | OverflowError
  | RuntimeError string
  | IMDBMovieNotFoundError
  | PatheMovieParseError string
  | RequestsError
  | UrllibHTTPError
  | UrllibURLError
  | SocketError
  | OtherError string

section \<open>String and list operations of the interpreter\<close>

text \<open>\<open>s.strip()\<close>.\<close>

definition py_strip :: "pystr \<Rightarrow> pystr" where
  "py_strip s = rev (dropWhile py_isspace (rev (dropWhile py_isspace s)))"

text \<open>\<open>s.split()\<close>: the maximal runs of characters that are not white space.\<close>

fun split_ws :: "pystr \<Rightarrow> pystr \<Rightarrow> pystr list" where
  "split_ws cur [] = (if cur = [] then [] else [rev cur])"
| "split_ws cur (c # cs) =
     (if py_isspace c then (if cur = [] then split_ws [] cs else rev cur # split_ws [] cs)
      else split_ws (c # cur) cs)"

definition py_split_ws :: "pystr \<Rightarrow> pystr list" where
  "py_split_ws s = split_ws [] s"

text \<open>
  \<open>s.split(sep)\<close> for a non-empty separator: the text is cut at every occurrence of the
  separator, found from left to right without overlap.  \<open>skip\<close> counts the characters
  of an occurrence that are still to be passed over.
\<close>

fun split_sep :: "pystr \<Rightarrow> nat \<Rightarrow> pystr \<Rightarrow> pystr \<Rightarrow> pystr list" where
  "split_sep sep skip cur [] = [rev cur]"
| "split_sep sep skip cur (c # cs) =
     (if 0 < skip then split_sep sep (skip - 1) cur cs
      else if take (length sep) (c # cs) = sep
           then rev cur # split_sep sep (length sep - 1) [] cs
      else split_sep sep 0 (c # cur) cs)"

definition py_split :: "pystr \<Rightarrow> pystr \<Rightarrow> pystr list" where
  "py_split sep s = split_sep sep 0 [] s"

text \<open>\<open>sub in s\<close> on strings.\<close>

fun py_contains :: "pystr \<Rightarrow> pystr \<Rightarrow> bool" where
  "py_contains sub [] = (sub = [])"
| "py_contains sub (c # cs) = (take (length sub) (c # cs) = sub \<or> py_contains sub cs)"

text \<open>\<open>s.replace(a, b)\<close> for single characters \<open>a\<close> and \<open>b\<close>.\<close>

definition py_replace_char :: "nat \<Rightarrow> nat \<Rightarrow> pystr \<Rightarrow> pystr" where
  "py_replace_char a b s = map (\<lambda>c. if c = a then b else c) s"

text \<open>\<open>xs[i]\<close> for \<open>i \<ge> 0\<close>, which raises \<open>IndexError\<close> out of range.\<close>

definition py_nth :: "'a list \<Rightarrow> nat \<Rightarrow> exc + 'a" where
  "py_nth xs i = (if i < length xs then Inr (xs ! i) else Inl IndexError)"

text \<open>\<open>xs.index(x)\<close>, which raises \<open>ValueError\<close> when \<open>x\<close> is not in the list.\<close>

fun index_of :: "'a \<Rightarrow> 'a list \<Rightarrow> nat option" where
  "index_of x [] = None"
| "index_of x (y # ys) = (if x = y then Some 0 else map_option Suc (index_of x ys))"

definition py_index :: "'a list \<Rightarrow> 'a \<Rightarrow> exc + nat" where
  "py_index xs x = (case index_of x xs of None \<Rightarrow> Inl ValueError | Some i \<Rightarrow> Inr i)"

text \<open>\<open>str(n)\<close> and \<open>'{}'.format(n)\<close> for an integer.\<close>

fun str_of_nat :: "nat \<Rightarrow> pystr" where
  "str_of_nat n = (if n < 10 then [48 + n] else str_of_nat (n div 10) @ [48 + n mod 10])"

definition str_of_int :: "int \<Rightarrow> pystr" where
  "str_of_int i = (if i < 0 then 45 # str_of_nat (nat (- i)) else str_of_nat (nat i))"

text \<open>
  \<open>int(s)\<close> on a non-empty string of decimal digits, with or without white space
  around it: the only strings the source and \<open>strptime\<close> pass to it (each is a group
  of a pattern that admits nothing else).  On any other string the model raises
  \<open>ValueError\<close>.
\<close>

fun digits_value :: "nat \<Rightarrow> pystr \<Rightarrow> nat option" where
  "digits_value acc [] = Some acc"
| "digits_value acc (c # cs) =
     (case py_decimal c of None \<Rightarrow> None | Some v \<Rightarrow> digits_value (10 * acc + v) cs)"

definition py_int :: "pystr \<Rightarrow> exc + nat" where
  "py_int s =
     (let s = py_strip s
      in if s = [] then Inl ValueError
         else case digits_value 0 s of None \<Rightarrow> Inl ValueError | Some n \<Rightarrow> Inr n)"

text \<open>
  A Python \<open>float\<close> by its value: a real number, an infinity or not-a-number.  The
  comparisons of finite floats with each other and with an integer are those of their
  values; every comparison with not-a-number is false.  \<open>float_truthy\<close> is the truth
  value of a float in a condition: only zero is false.
\<close>

datatype pyfloat = Finite real | PosInf | NegInf | NaN

fun float_truthy :: "pyfloat \<Rightarrow> bool" where
  "float_truthy (Finite r) = (r \<noteq> 0)"
| "float_truthy f = True"

fun float_gt_int :: "pyfloat \<Rightarrow> int \<Rightarrow> bool" where
  "float_gt_int (Finite r) k = (of_int k < r)"
| "float_gt_int PosInf k = True"
| "float_gt_int NegInf k = False"
| "float_gt_int NaN k = False"

section \<open>The fragment of \<open>re\<close> that the source uses\<close>

text \<open>
  Every pattern of the source is a sequence of single characters and character classes,
  some under a greedy quantifier, with capture groups that are neither nested nor
  repeated, matched with \<open>re.match\<close> (anchored at the start, so the leading \<open>^\<close> adds
  nothing).  \<open>rmatch\<close> is the backtracking matcher on such sequences: a quantified class
  first takes one more character and only when the rest of the pattern then fails
  gives it back.  It returns the positions of the group boundaries in the order in
  which the pattern lists them.
\<close>

datatype cls = Dot | Space | Digit | Range nat nat | Ch nat

fun cls_ok :: "cls \<Rightarrow> nat \<Rightarrow> bool" where
  "cls_ok Dot c = (c \<noteq> 10)"
| "cls_ok Space c = py_isspace c"
| "cls_ok Digit c = (py_decimal c \<noteq> None)"
| "cls_ok (Range a b) c = (a \<le> c \<and> c \<le> b)"
| "cls_ok (Ch a) c = (c = a)"

datatype item = One cls | Rep cls nat "nat option" | Open | Close | Eos

fun rmatch :: "item list \<Rightarrow> pystr \<Rightarrow> nat \<Rightarrow> nat list \<Rightarrow> nat list option" where
  "rmatch [] s pos ms = Some (rev ms)"
| "rmatch (One c # ps) [] pos ms = None"
| "rmatch (One c # ps) (x # xs) pos ms =
     (if cls_ok c x then rmatch ps xs (Suc pos) ms else None)"
| "rmatch (Open # ps) s pos ms = rmatch ps s pos (pos # ms)"
| "rmatch (Close # ps) s pos ms = rmatch ps s pos (pos # ms)"
| "rmatch (Eos # ps) s pos ms =
     (if s = [] \<or> s = [10] then rmatch ps s pos ms else None)"
| "rmatch (Rep c lo hi # ps) [] pos ms =
     (if lo = 0 then rmatch ps [] pos ms else None)"
| "rmatch (Rep c lo hi # ps) (x # xs) pos ms =
     (case (if hi \<noteq> Some 0 \<and> cls_ok c x
            then rmatch (Rep c (lo - 1) (map_option (\<lambda>h. h - 1) hi) # ps) xs (Suc pos) ms
            else None) of
        Some r \<Rightarrow> Some r
      | None \<Rightarrow> if lo = 0 then rmatch ps (x # xs) pos ms else None)"

fun groups_of :: "pystr \<Rightarrow> nat list \<Rightarrow> pystr list" where
  "groups_of s (a # b # ms) = take (b - a) (drop a s) # groups_of s ms"
| "groups_of s ms = []"

text \<open>\<open>re.match(p, s)\<close>: \<open>None\<close>, or the match object, given by its \<open>groups()\<close>.\<close>

definition re_match :: "item list \<Rightarrow> pystr \<Rightarrow> pystr list option" where
  "re_match p s = map_option (groups_of s) (rmatch p s 0 [])"

definition lits :: "string \<Rightarrow> item list" where
  "lits s = map (\<lambda>c. One (Ch (of_char c))) s"

section \<open>Dates of the interpreter\<close>

text \<open>
  A \<open>datetime.date\<close> is given by its proleptic Gregorian ordinal (\<open>toordinal()\<close>): day 1
  is 0001-01-01 and the last date, 9999-12-31, is day 3652059.  Adding a
  \<open>timedelta\<close> of whole days adds to the ordinal and raises \<open>OverflowError\<close> when the
  result is no date.  \<open>weekday()\<close> is 0 on a Monday and 6 on a Sunday.
\<close>

definition date_max :: int where
  "date_max = 3652059"

definition is_date :: "int \<Rightarrow> bool" where
  "is_date d \<longleftrightarrow> 1 \<le> d \<and> d \<le> date_max"

definition date_add_days :: "int \<Rightarrow> int \<Rightarrow> exc + int" where
  "date_add_days d n = (if is_date (d + n) then Inr (d + n) else Inl OverflowError)"

definition weekday :: "int \<Rightarrow> int" where
  "weekday d = (d + 6) mod 7"

text \<open>
  A naive \<open>datetime.datetime\<close> by its fields; two of them compare as the tuples of their
  fields do.
\<close>

record datetime =
  dt_year :: nat
  dt_month :: nat
  dt_day :: nat
  dt_hour :: nat
  dt_minute :: nat
  dt_second :: nat
  dt_microsecond :: nat

definition dt_fields :: "datetime \<Rightarrow> nat list" where
  "dt_fields t = [dt_year t, dt_month t, dt_day t, dt_hour t, dt_minute t, dt_second t,
                  dt_microsecond t]"

fun lex_less :: "nat list \<Rightarrow> nat list \<Rightarrow> bool" where
  "lex_less (x # xs) (y # ys) = (x < y \<or> (x = y \<and> lex_less xs ys))"
| "lex_less [] (y # ys) = True"
| "lex_less xs [] = False"

definition dt_less :: "datetime \<Rightarrow> datetime \<Rightarrow> bool" where
  "dt_less a b = lex_less (dt_fields a) (dt_fields b)"

definition is_leap :: "nat \<Rightarrow> bool" where
  "is_leap y \<longleftrightarrow> y mod 4 = 0 \<and> (y mod 100 \<noteq> 0 \<or> y mod 400 = 0)"

definition days_in_month :: "nat \<Rightarrow> nat \<Rightarrow> nat" where
  "days_in_month y m =
     (if m = 2 then (if is_leap y then 29 else 28)
      else if m = 4 \<or> m = 6 \<or> m = 9 \<or> m = 11 then 30 else 31)"

definition valid_ymd :: "nat \<Rightarrow> nat \<Rightarrow> nat \<Rightarrow> bool" where
  "valid_ymd y m d \<longleftrightarrow>
     1 \<le> y \<and> y \<le> 9999 \<and> 1 \<le> m \<and> m \<le> 12 \<and> 1 \<le> d \<and> d \<le> days_in_month y m"

definition days_before_month :: "nat \<Rightarrow> nat \<Rightarrow> nat" where
  "days_before_month y m =
     [0, 31, 59, 90, 120, 151, 181, 212, 243, 273, 304, 334] ! (m - 1)
     + (if 2 < m \<and> is_leap y then 1 else 0)"

text \<open>The ordinal of the date of a valid year, month and day.\<close>

definition ymd_ordinal :: "nat \<Rightarrow> nat \<Rightarrow> nat \<Rightarrow> int" where
  "ymd_ordinal y m d =
     int ((y - 1) * 365 + (y - 1) div 4 - (y - 1) div 100 + (y - 1) div 400
          + days_before_month y m + d)"

text \<open>
  \<open>datetime.datetime.strptime(s, '%d.%m.%Y')\<close>.  The library turns the format into the
  pattern
  \<^verbatim>\<open>(?P<d>3[0-1]|[1-2]\d|0[1-9]|[1-9]| [1-9])\.(?P<m>1[0-2]|0[1-9]|[1-9])\.(?P<Y>\d\d\d\d)\<close>,
  matches it at the start of the string, and raises \<open>ValueError\<close> when it does not
  match, when the match does not reach the end of the string, or when the three numbers
  are no date.  An alternation in front of the rest of a pattern is tried branch by
  branch, each with the rest: the pattern is the list of its fifteen branches in that
  order.
\<close>

definition strptime_d :: "item list list" where
  "strptime_d =
     [[One (Ch 51), One (Range 48 49)],
      [One (Range 49 50), One Digit],
      [One (Ch 48), One (Range 49 57)],
      [One (Range 49 57)],
      [One (Ch 32), One (Range 49 57)]]"

definition strptime_m :: "item list list" where
  "strptime_m =
     [[One (Ch 49), One (Range 48 50)],
      [One (Ch 48), One (Range 49 57)],
      [One (Range 49 57)]]"

definition strptime_dmY_re :: "item list list" where
  "strptime_dmY_re =
     concat (map (\<lambda>d. map (\<lambda>m.
       [Open] @ d @ [Close, One (Ch 46), Open] @ m @
       [Close, One (Ch 46), Open, One Digit, One Digit, One Digit, One Digit, Close])
       strptime_m) strptime_d)"

fun rmatch_first :: "item list list \<Rightarrow> pystr \<Rightarrow> nat list option" where
  "rmatch_first [] s = None"
| "rmatch_first (p # ps) s =
     (case rmatch p s 0 [] of Some ms \<Rightarrow> Some ms | None \<Rightarrow> rmatch_first ps s)"

definition strptime_dmY :: "pystr \<Rightarrow> exc + datetime" where
  "strptime_dmY s =
     (case rmatch_first strptime_dmY_re s of
        None \<Rightarrow> Inl ValueError
      | Some ms \<Rightarrow>
          if last ms \<noteq> length s then Inl ValueError
          else (case groups_of s ms of
                  [d, m, Y] \<Rightarrow>
                    (case (py_int d, py_int m, py_int Y) of
                       (Inr day, Inr month, Inr year) \<Rightarrow>
                         if valid_ymd year month day
                         then Inr \<lparr>dt_year = year, dt_month = month, dt_day = day,
                                   dt_hour = 0, dt_minute = 0, dt_second = 0,
                                   dt_microsecond = 0\<rparr>
                         else Inl ValueError
                     | _ \<Rightarrow> Inl ValueError)
                | _ \<Rightarrow> Inl ValueError))"

text \<open>What \<open>normalize_date\<close> and \<open>get_movie_release_date\<close> return: a date or a datetime.\<close>

datatype pydate = Date int | DateTime datetime

section \<open>Parsed pages and the outside world\<close>

text \<open>
  The source reads a page only through fixed XPath queries on the tree that
  \<open>lxml.html.fromstring\<close> built.  A parsed page is therefore given by the result of each
  of these queries: the string value for a \<open>string(...)\<close> query, which is empty when no
  element matches, and the list of matches otherwise.

  \<^item> \<open>xp_special\<close>, \<open>xp_genre\<close>, \<open>xp_duur\<close>, \<open>xp_taalversie\<close>, \<open>xp_te_zien_in\<close>: the string
    value of the \<open>li\<close> of the side list whose \<open>span\<close> reads \<open>Special:\<close>, \<open>Genre:\<close>,
    \<open>Duur:\<close>, \<open>Taalversie:\<close>, \<open>Te zien in:\<close>;
  \<^item> \<open>xp_h1_name\<close>: \<^verbatim>\<open>string(//h1[@itemprop="name"])\<close>; \<open>xp_page_title_h1\<close>: the string
    value of the \<open>h1\<close> of the page title;
  \<^item> \<open>xp_release_date\<close>: \<^verbatim>\<open>string(//span[@class="release-date"]/em)\<close>;
  \<^item> \<open>xp_kijkwijzer_src\<close>: the \<open>src\<close> attributes of the images of the \<open>Kijkwijzer:\<close> item;
  \<^item> \<open>xp_aggregate_rating\<close>: \<^verbatim>\<open>string(//div[@itemprop="aggregateRating"]/span/span)\<close>;
  \<^item> \<open>xp_slider_entry\<close>: the \<open>slider-entry\<close> elements, each by its \<open>span/text()\<close> and by
    whether it has an \<open>em\<close> reading \<open>Regisseur\<close>;
  \<^item> \<open>xp_find_titles\<close>: on a search page of the film database, one entry for every
    \<open>Titles\<close> header, the string value of the link of the first result under it;
  \<^item> \<open>xp_rating_value\<close>: \<^verbatim>\<open>//span[@itemprop="ratingValue"]/text()\<close>;
  \<^item> \<open>xp_movies_overview\<close>: the poster elements of a listing page, each by the texts of
    its button and by the \<open>href\<close> attributes of its overlay link.
\<close>

record slider_entry =
  span_texts :: "pystr list"
  regisseur :: bool

record poster =
  btn_span_texts :: "pystr list"
  overlay_hrefs :: "pystr list"

record html_doc =
  xp_special :: pystr
  xp_h1_name :: pystr
  xp_page_title_h1 :: pystr
  xp_release_date :: pystr
  xp_genre :: pystr
  xp_duur :: pystr
  xp_taalversie :: pystr
  xp_kijkwijzer_src :: "pystr list"
  xp_te_zien_in :: pystr
  xp_aggregate_rating :: pystr
  xp_slider_entry :: "slider_entry list"
  xp_find_titles :: "pystr list"
  xp_rating_value :: "pystr list"
  xp_movies_overview :: "poster list"

text \<open>A page on which every queried element is absent.\<close>

definition absent_doc :: html_doc where
  "absent_doc =
     \<lparr>xp_special = [], xp_h1_name = [], xp_page_title_h1 = [], xp_release_date = [],
      xp_genre = [], xp_duur = [], xp_taalversie = [], xp_kijkwijzer_src = [],
      xp_te_zien_in = [], xp_aggregate_rating = [], xp_slider_entry = [],
      xp_find_titles = [], xp_rating_value = [], xp_movies_overview = []\<rparr>"

text \<open>
  What the libraries do for the program, each call either returning (\<open>Inr\<close>) or raising
  (\<open>Inl\<close>):
  \<^item> \<open>gs_translate\<close>: \<open>goslate.Goslate().translate(text, source_language='nl',
    target_language='en')\<close>;
  \<^item> \<open>py_float\<close>: \<open>float(s)\<close>, \<open>None\<close> standing for \<open>ValueError\<close>;
  \<^item> \<open>requests_get\<close>: \<open>requests.get(url).text\<close>;
  \<^item> \<open>imdb_get\<close>: \<open>requests.get(url, params=params, headers=...)\<close> followed by
    \<open>raise_for_status()\<close> and \<open>.text\<close>;
  \<^item> \<open>lh_fromstring\<close>: \<open>lxml.html.fromstring(text)\<close> with the queries above.
\<close>

record env =
  gs_translate :: "pystr \<Rightarrow> exc + pystr"
  py_float :: "pystr \<Rightarrow> pyfloat option"
  requests_get :: "pystr \<Rightarrow> exc + pystr"
  imdb_get :: "pystr \<Rightarrow> (pystr \<times> pystr) list \<Rightarrow> exc + pystr"
  lh_fromstring :: "pystr \<Rightarrow> exc + html_doc"

section \<open>Constants of the module\<close>

definition SKIP_SPECIAL :: "pystr list" where
  "SKIP_SPECIAL =
     [ustr ''Path'' @ [233] @ ustr ''Opera'', ustr ''Path'' @ [233] @ ustr ''Art'',
      ustr ''Path'' @ [233] @ ustr ''Ballet'', ustr ''Path'' @ [233] @ ustr ''OperaEncore'',
      ustr ''Path'' @ [233] @ ustr ''Theatre'']"

definition DAYS_OF_WEEK :: "pystr list" where
  "DAYS_OF_WEEK =
     map ustr [''maandag'', ''dinsdag'', ''woensdag'', ''donderdag'', ''vrijdag'',
               ''zaterdag'', ''zondag'']"

definition MONTHS_SHORT :: "pystr list" where
  "MONTHS_SHORT =
     map ustr [''jan'', ''feb'', ''mrt'', ''apr'', ''mei'', ''jun'', ''jul'', ''aug'',
               ''sep'', ''okt'', ''nov'', ''dec'']"

definition MONTHS_FULL :: "pystr list" where
  "MONTHS_FULL =
     map ustr [''januari'', ''februari'', ''maart'', ''april'', ''mei'', ''juni'', ''juli'',
               ''augustus'', ''september'', ''oktober'', ''november'', ''december'']"

text \<open>
  \<open>TODAY\<close> and \<open>TOMORROW\<close> are computed once, when the module is loaded; the addition
  can overflow, and then the module does not load.
\<close>

record globals =
  TODAY :: int
  TOMORROW :: int

definition module_globals :: "int \<Rightarrow> exc + globals" where
  "module_globals today =
     (case date_add_days today 1 of
        Inl e \<Rightarrow> Inl e
      | Inr tomorrow \<Rightarrow> Inr \<lparr>TODAY = today, TOMORROW = tomorrow\<rparr>)"

section \<open>Translation\<close>

text \<open>\<open>nl_to_en\<close>: the handler catches \<open>urllib.error.HTTPError\<close> and nothing else.\<close>

definition nl_to_en :: "env \<Rightarrow> pystr \<Rightarrow> exc + pystr" where
  "nl_to_en env text =
     (case gs_translate env text of
        Inr translated \<Rightarrow> Inr translated
      | Inl e \<Rightarrow> if e = UrllibHTTPError then Inr text else Inl e)"

section \<open>Dates of showtimes\<close>

definition next_weekday :: "globals \<Rightarrow> int \<Rightarrow> exc + int" where
  "next_weekday g wd =
     (let days_ahead = wd - weekday (TODAY g);
          days_ahead = (if days_ahead \<le> 0 then days_ahead + 7 else days_ahead)
      in date_add_days (TODAY g) days_ahead)"

text \<open>The pattern \<^verbatim>\<open>^.*\s(\d{2})\s([a-z]{3})$\<close> of \<open>normalize_date\<close>.\<close>

definition precise_date_re :: "item list" where
  "precise_date_re =
     [Rep Dot 0 None, One Space, Open, Rep Digit 2 (Some 2), Close, One Space,
      Open, Rep (Range 97 122) 3 (Some 3), Close, Eos]"

text \<open>
  \<open>normalize_date\<close>.  The clock is read twice in the last branch, for the year
  (\<open>now1\<close>) and for the comparison (\<open>now2\<close>).  After the comparison the source adds one
  to \<open>year\<close> and parses \<open>date_str\<close> again, the string it built before.
\<close>

definition normalize_date :: "globals \<Rightarrow> datetime \<Rightarrow> datetime \<Rightarrow> pystr \<Rightarrow> exc + pydate" where
  "normalize_date g now1 now2 day_name =
     (if day_name = ustr ''vandaag'' then Inr (Date (TODAY g))
      else if day_name = ustr ''morgen'' then Inr (Date (TOMORROW g))
      else if List.member DAYS_OF_WEEK day_name then
        (case py_index DAYS_OF_WEEK day_name of
           Inl e \<Rightarrow> Inl e
         | Inr i \<Rightarrow> (case next_weekday g (int i) of
                       Inl e \<Rightarrow> Inl e
                     | Inr showtime_date \<Rightarrow> Inr (Date showtime_date)))
      else
        (case re_match precise_date_re day_name of
           None \<Rightarrow> Inl (PatheMovieParseError ''Unexpected day name'')
         | Some match_groups \<Rightarrow>
             (case py_index MONTHS_SHORT (match_groups ! 1) of
                Inl e \<Rightarrow> Inl e
              | Inr i \<Rightarrow>
                 (let day = match_groups ! 0;
                      month = i + 1;
                      month = (if month < 10 then 48 # str_of_nat month else str_of_nat month);
                      year = dt_year now1;
                      date_str = day @ [46] @ month @ [46] @ str_of_nat year
                  in case strptime_dmY date_str of
                       Inl e \<Rightarrow> Inl e
                     | Inr showtime_date \<Rightarrow>
                         if dt_less showtime_date now2 then
                           (let year = year + 1
                            in case strptime_dmY date_str of
                                 Inl e \<Rightarrow> Inl e
                               | Inr showtime_date \<Rightarrow> Inr (DateTime showtime_date))
                         else Inr (DateTime showtime_date)))))"

section \<open>Field extractors\<close>

definition get_movie_special :: "html_doc \<Rightarrow> exc + pystr option" where
  "get_movie_special movie_page_doc =
     (let special_string = xp_special movie_page_doc
      in if special_string \<noteq> [] then
           (let special_string = concat (py_split_ws special_string)
            in case py_nth (py_split [58] special_string) 1 of
                 Inl e \<Rightarrow> Inl e
               | Inr special \<Rightarrow> Inr (Some special))
         else Inr None)"

text \<open>The pattern \<^verbatim>\<open>^(.*)\s(\(.*\))$\<close> of \<open>get_movie_title\<close>.\<close>

definition title_re :: "item list" where
  "title_re =
     [Open, Rep Dot 0 None, Close, One Space,
      Open, One (Ch 40), Rep Dot 0 None, One (Ch 41), Close, Eos]"

text \<open>The title as the page gives it: the first query, or the second when the first is empty.\<close>

definition title_xpath :: "html_doc \<Rightarrow> pystr" where
  "title_xpath movie_page_doc =
     (if xp_h1_name movie_page_doc \<noteq> [] then xp_h1_name movie_page_doc
      else xp_page_title_h1 movie_page_doc)"

definition get_movie_title :: "html_doc \<Rightarrow> pystr" where
  "get_movie_title movie_page_doc =
     (let title = title_xpath movie_page_doc
      in case re_match title_re title of
           Some groups \<Rightarrow> groups ! 0
         | None \<Rightarrow> title)"

text \<open>The pattern \<^verbatim>\<open>^(\d{1,2})\s([a-z]+)\s(\d{4})\<close> of \<open>get_movie_release_date\<close>.\<close>

definition release_date_re :: "item list" where
  "release_date_re =
     [Open, Rep Digit 1 (Some 2), Close, One Space, Open, Rep (Range 97 122) 1 None, Close,
      One Space, Open, Rep Digit 4 (Some 4), Close]"

text \<open>
  \<open>get_movie_release_date\<close> calls \<open>groups()\<close> on the result of \<open>re.match\<close> without a
  test: on \<open>None\<close> that is an \<open>AttributeError\<close>.
\<close>

definition get_movie_release_date :: "html_doc \<Rightarrow> exc + pydate" where
  "get_movie_release_date movie_page_doc =
     (let date_string = xp_release_date movie_page_doc
      in case re_match release_date_re date_string of
           None \<Rightarrow> Inl AttributeError
         | Some groups \<Rightarrow>
             (case py_index MONTHS_FULL (groups ! 1) of
                Inl e \<Rightarrow> Inl e
              | Inr i \<Rightarrow>
                 (let day = groups ! 0;
                      month = i + 1;
                      year = groups ! 2;
                      date_string = day @ [46] @ str_of_nat month @ [46] @ year
                  in case strptime_dmY date_string of
                       Inl e \<Rightarrow> Inl e
                     | Inr t \<Rightarrow> Inr (Date (ymd_ordinal (dt_year t) (dt_month t) (dt_day t))))))"

fun translate_all :: "env \<Rightarrow> pystr list \<Rightarrow> exc + pystr list" where
  "translate_all env [] = Inr []"
| "translate_all env (genre # genres) =
     (case nl_to_en env genre of
        Inl e \<Rightarrow> Inl e
      | Inr t \<Rightarrow> (case translate_all env genres of Inl e \<Rightarrow> Inl e | Inr ts \<Rightarrow> Inr (t # ts)))"

definition get_movie_genres :: "env \<Rightarrow> html_doc \<Rightarrow> exc + pystr list option" where
  "get_movie_genres env movie_page_doc =
     (let genres_string = xp_genre movie_page_doc
      in if genres_string \<noteq> [] then
           (let genres_string = concat (py_split_ws genres_string)
            in case py_nth (py_split [58] genres_string) 1 of
                 Inl e \<Rightarrow> Inl e
               | Inr genres \<Rightarrow>
                   (case translate_all env (py_split [44] genres) of
                      Inl e \<Rightarrow> Inl e
                    | Inr genres \<Rightarrow> Inr (Some genres)))
         else Inr None)"

text \<open>The pattern \<^verbatim>\<open>^Duur:\s+(\d+)\s+minuten$\<close> of \<open>get_movie_duration\<close>.\<close>

definition duration_re :: "item list" where
  "duration_re =
     lits ''Duur:'' @ [Rep Space 1 None, Open, Rep Digit 1 None, Close, Rep Space 1 None]
     @ lits ''minuten'' @ [Eos]"

definition get_movie_duration :: "html_doc \<Rightarrow> pystr option" where
  "get_movie_duration movie_page_doc =
     (let duration_string = py_strip (xp_duur movie_page_doc)
      in case re_match duration_re duration_string of
           Some groups \<Rightarrow> Some (groups ! 0)
         | None \<Rightarrow> None)"

definition get_movie_language :: "env \<Rightarrow> html_doc \<Rightarrow> exc + pystr option" where
  "get_movie_language env movie_page_doc =
     (let language_string = xp_taalversie movie_page_doc
      in if language_string \<noteq> [] then
           (case py_nth (py_split [58, 32] (py_strip language_string)) 1 of
              Inl e \<Rightarrow> Inl e
            | Inr language_dutch \<Rightarrow>
                (case nl_to_en env language_dutch of
                   Inl e \<Rightarrow> Inl e
                 | Inr language \<Rightarrow> Inr (Some language)))
         else Inr None)"

text \<open>
  The pattern \<^verbatim>\<open>^/themes/main/gfx/icons/kijkwijzer/(.*).png$\<close> of
  \<open>get_movie_restrictions\<close>; the dot before \<open>png\<close> is not escaped and stands for any
  character.
\<close>

definition restriction_re :: "item list" where
  "restriction_re =
     lits ''/themes/main/gfx/icons/kijkwijzer/'' @ [Open, Rep Dot 0 None, Close, One Dot]
     @ lits ''png'' @ [Eos]"

text \<open>The loop of \<open>get_movie_restrictions\<close>, with the list built so far.\<close>

fun restrictions_loop :: "pystr list \<Rightarrow> pystr list \<Rightarrow> exc + pystr list" where
  "restrictions_loop [] restrictions = Inr restrictions"
| "restrictions_loop (restriction # restrictions_list) restrictions =
     (case re_match restriction_re restriction of
        None \<Rightarrow> restrictions_loop restrictions_list restrictions
      | Some groups \<Rightarrow>
          (let restriction_name = groups ! 0
           in if restriction_name = ustr ''rating-onbekend-z''
              then restrictions_loop restrictions_list (restrictions @ [ustr ''unknown''])
              else if restriction_name = ustr ''rating-nvt-z''
              then restrictions_loop restrictions_list (restrictions @ [ustr ''n/a''])
              else if py_contains (ustr ''kijkwijzer-'') restriction_name
              then (case py_nth (py_split (ustr ''kijkwijzer-'') restriction_name) 1 of
                      Inl e \<Rightarrow> Inl e
                    | Inr restriction_name \<Rightarrow>
                        restrictions_loop restrictions_list (restrictions @ [restriction_name]))
              else Inl (PatheMovieParseError ''Unexpected restriction name'')))"

definition get_movie_restrictions :: "html_doc \<Rightarrow> exc + pystr list" where
  "get_movie_restrictions movie_page_doc =
     restrictions_loop (xp_kijkwijzer_src movie_page_doc) []"

definition get_movie_technologies :: "html_doc \<Rightarrow> exc + pystr list option" where
  "get_movie_technologies movie_page_doc =
     (let technologies_string = xp_te_zien_in movie_page_doc
      in if technologies_string \<noteq> [] then
           (let technologies_string = concat (py_split_ws technologies_string)
            in case py_nth (py_split [58] technologies_string) 1 of
                 Inl e \<Rightarrow> Inl e
               | Inr technologies \<Rightarrow> Inr (Some (py_split [44] technologies)))
         else Inr None)"

definition get_movie_rating :: "env \<Rightarrow> html_doc \<Rightarrow> exc + pyfloat option" where
  "get_movie_rating env movie_page_doc =
     (let rating_string = xp_aggregate_rating movie_page_doc
      in if rating_string \<noteq> [] then
           (case py_float env (py_replace_char 44 46 rating_string) of
              None \<Rightarrow> Inl ValueError
            | Some r \<Rightarrow> Inr (Some r))
         else Inr None)"

text \<open>The loop of \<open>get_movie_directors_cast\<close>, with the two lists built so far.\<close>

fun directors_cast_loop ::
  "slider_entry list \<Rightarrow> pystr list \<Rightarrow> pystr list \<Rightarrow> exc + pystr list \<times> pystr list" where
  "directors_cast_loop [] directors cast = Inr (directors, cast)"
| "directors_cast_loop (person # items) directors cast =
     (case py_nth (span_texts person) 0 of
        Inl e \<Rightarrow> Inl e
      | Inr person_name \<Rightarrow>
          if regisseur person then directors_cast_loop items (directors @ [person_name]) cast
          else directors_cast_loop items directors (cast @ [person_name]))"

definition get_movie_directors_cast :: "html_doc \<Rightarrow> exc + pystr list \<times> pystr list" where
  "get_movie_directors_cast movie_page_doc =
     directors_cast_loop (xp_slider_entry movie_page_doc) [] []"

section \<open>Rating resolution\<close>

definition do_imdb_request :: "env \<Rightarrow> pystr \<Rightarrow> (pystr \<times> pystr) list \<Rightarrow> exc + pystr" where
  "do_imdb_request env path params =
     (let url = ustr ''http://www.imdb.com/'' @ path
      in case imdb_get env url params of
           Inl e \<Rightarrow> if e = RequestsError then Inl (RuntimeError ''IMDB HTTP request failed'')
                    else Inl e
         | Inr text \<Rightarrow> Inr text)"

text \<open>The pattern \<^verbatim>\<open>^/title/tt(\d+)/\?ref_=fn_ft_tt_1$\<close> of \<open>get_imdb_id_by_title\<close>.\<close>

definition imdb_link_re :: "item list" where
  "imdb_link_re =
     lits ''/title/tt'' @ [Open, Rep Digit 1 None, Close] @ lits ''/?ref_=fn_ft_tt_1'' @ [Eos]"

definition get_imdb_id_by_title :: "env \<Rightarrow> pystr \<Rightarrow> exc + nat" where
  "get_imdb_id_by_title env title =
     (case do_imdb_request env (ustr ''find'')
             [(ustr ''q'', title), (ustr ''s'', ustr ''tt''), (ustr ''ttype'', ustr ''ft'')] of
        Inl e \<Rightarrow> Inl e
      | Inr search_results \<Rightarrow>
          (case lh_fromstring env search_results of
             Inl e \<Rightarrow> Inl e
           | Inr lh_doc \<Rightarrow>
               (case xp_find_titles lh_doc of
                  [] \<Rightarrow> Inl IMDBMovieNotFoundError
                | movie_link # _ \<Rightarrow>
                    (case re_match imdb_link_re movie_link of
                       None \<Rightarrow> Inl AttributeError
                     | Some groups \<Rightarrow> py_int (groups ! 0)))))"

text \<open>
  \<open>get_movie_imdb_rating(**kwargs)\<close> reads the keys \<open>title\<close> and \<open>id\<close> only, so the
  keyword arguments are given by whether each of the two is present, and its value.
\<close>

record kwargs =
  kw_title :: "pystr option"
  kw_id :: "int option"

definition get_movie_imdb_rating :: "env \<Rightarrow> kwargs \<Rightarrow> exc + int \<times> pyfloat option" where
  "get_movie_imdb_rating env kw =
     (case (case kw_title kw of
              Some title \<Rightarrow>
                (case get_imdb_id_by_title env title of
                   Inl e \<Rightarrow>
                     if e = IMDBMovieNotFoundError
                     then (case nl_to_en env title of
                             Inl e' \<Rightarrow> Inl e'
                           | Inr translated \<Rightarrow>
                               map_sum id int (get_imdb_id_by_title env translated))
                     else Inl e
                 | Inr imdb_id \<Rightarrow> Inr (int imdb_id))
            | None \<Rightarrow>
                (case kw_id kw of
                   Some imdb_id \<Rightarrow> Inr imdb_id
                 | None \<Rightarrow>
                     Inl (RuntimeError
                           ''Either title or ID must be provided as a search term''))) of
        Inl e \<Rightarrow> Inl e
      | Inr imdb_id \<Rightarrow>
          (case do_imdb_request env (ustr ''title/tt'' @ str_of_int imdb_id) [] of
             Inl e \<Rightarrow> Inl e
           | Inr movie_page \<Rightarrow>
               (case lh_fromstring env movie_page of
                  Inl e \<Rightarrow> Inl e
                | Inr lh_doc \<Rightarrow>
                    (case xp_rating_value lh_doc of
                       [] \<Rightarrow> Inr (imdb_id, None)
                     | imdb_rating # _ \<Rightarrow>
                         (case py_float env (py_strip imdb_rating) of
                            None \<Rightarrow> Inl ValueError
                          | Some r \<Rightarrow> Inr (imdb_id, Some r))))))"

section \<open>The bodies of the two worker loops\<close>

text \<open>
  One turn of a worker loop, for an item that is not the sentinel, is given by what it
  does in order: the functions of the module it calls, what it puts on the detail
  queue, what it prints, what it appends to \<open>result_list\<close>, and how the turn ends, with
  \<open>task_done()\<close> on its own queue or with an exception that nothing catches.
\<close>

datatype event =
    Call string
  | Put pystr
  | Print pystr pystr
  | Append "pystr \<times> pystr"
  | TaskDone
  | Raise exc

text \<open>The loop over the posters of a listing page in \<open>process_movies_list_page\<close>.\<close>

fun scan_movies :: "poster list \<Rightarrow> event list" where
  "scan_movies [] = [TaskDone]"
| "scan_movies (movie # movies_list) =
     (case py_nth (btn_span_texts movie) 0 of
        Inl e \<Rightarrow> [Raise e]
      | Inr label \<Rightarrow>
          if \<not> List.member [ustr ''Tijden en tickets'', ustr ''Verwacht''] label
          then scan_movies movies_list
          else (case py_nth (overlay_hrefs movie) 0 of
                  Inl e \<Rightarrow> [Raise e]
                | Inr movie_url \<Rightarrow>
                    if movie_url = ustr ''/film/845/sneak-preview''
                    then scan_movies movies_list
                    else Put (ustr ''http://www.pathe.nl'' @ movie_url)
                           # scan_movies movies_list))"

definition process_movies_list_page_item :: "env \<Rightarrow> pystr \<Rightarrow> event list" where
  "process_movies_list_page_item env url =
     (case requests_get env url of
        Inl e \<Rightarrow> [Raise e]
      | Inr movies_list_page \<Rightarrow>
          (case lh_fromstring env movies_list_page of
             Inl e \<Rightarrow> [Raise e]
           | Inr lh_movies_doc \<Rightarrow> scan_movies (xp_movies_overview lh_movies_doc)))"

text \<open>
  The pattern \<^verbatim>\<open>^http://www.pathe.nl/film/(\d+)/(.*)$\<close> of \<open>process_movie\<close>; its dots
  are not escaped.
\<close>

definition movie_url_re :: "item list" where
  "movie_url_re =
     lits ''http://www'' @ [One Dot] @ lits ''pathe'' @ [One Dot] @ lits ''nl/film/''
     @ [Open, Rep Digit 1 None, Close, One (Ch 47), Open, Rep Dot 0 None, Close, Eos]"

definition imdb_url :: "int \<Rightarrow> pystr" where
  "imdb_url imdb_id = ustr ''http://imdb.com/title/tt'' @ str_of_int imdb_id"

text \<open>\<open>special in SKIP_SPECIAL\<close>, where \<open>special\<close> is a string or \<open>None\<close>.\<close>

definition special_in_skip :: "pystr option \<Rightarrow> bool" where
  "special_in_skip special =
     (case special of None \<Rightarrow> False | Some sp \<Rightarrow> List.member SKIP_SPECIAL sp)"

text \<open>
  One turn of \<open>process_movie\<close>.  The list \<open>specials\<close> of the source is local to the turn
  and never read; it is left out.  \<open>IMDBMovieNotFoundError\<close> from the rating resolution
  is caught and leaves no rating.
\<close>

definition process_movie_item :: "env \<Rightarrow> pystr \<Rightarrow> event list" where
  "process_movie_item env url =
     (case re_match movie_url_re url of
        None \<Rightarrow> [Raise AttributeError]
      | Some groups \<Rightarrow>
     (case requests_get env url of
        Inl e \<Rightarrow> [Raise e]
      | Inr movie \<Rightarrow>
     (case lh_fromstring env movie of
        Inl e \<Rightarrow> [Raise e]
      | Inr lh_movie_doc \<Rightarrow>
     Call ''get_movie_special'' #
     (case get_movie_special lh_movie_doc of
        Inl e \<Rightarrow> [Raise e]
      | Inr special \<Rightarrow>
     if special_in_skip special
     then [TaskDone]
     else
     Call ''get_movie_title'' #
     (let title = get_movie_title lh_movie_doc in
     Call ''get_movie_imdb_rating'' #
     (case (case get_movie_imdb_rating env \<lparr>kw_title = Some title, kw_id = None\<rparr> of
              Inl e \<Rightarrow> if e = IMDBMovieNotFoundError then Inr None else Inl e
            | Inr (imdb_id, imdb_rating) \<Rightarrow> Inr (Some (imdb_id, imdb_rating))) of
        Inl e \<Rightarrow> [Raise e]
      | Inr None \<Rightarrow> [TaskDone]
      | Inr (Some (imdb_id, imdb_rating)) \<Rightarrow>
          (case imdb_rating of
             None \<Rightarrow> [TaskDone]
           | Some r \<Rightarrow>
               if float_truthy r \<and> float_gt_int r 8
               then [Print url (imdb_url imdb_id), Append (url, imdb_url imdb_id), TaskDone]
               else [TaskDone])))))))"

section \<open>The pipeline: two queues, two pools of threads and the main thread\<close>

text \<open>
  A \<open>queue.Queue\<close> is its list of items together with its count of unfinished tasks:
  \<open>put\<close> appends an item and adds one to the count, \<open>get\<close> waits for an item and takes
  the first, \<open>task_done\<close> takes one from the count (and raises \<open>ValueError\<close> at zero),
  \<open>join\<close> waits until the count is zero.  The sentinel \<open>None\<close> is the item \<open>None\<close>.

  A worker thread is at its \<open>get\<close> (\<open>Idle\<close>), in a turn of its loop with the item it
  took and what is left to do of the turn (\<open>Busy\<close>), has left its loop on a sentinel
  (\<open>Returned\<close>), or has died of an exception in a turn, with the item of that turn
  (\<open>Died\<close>).
\<close>

datatype thread = Idle | Busy pystr "event list" | Returned | Died pystr exc

text \<open>Where the main thread stands in the last part of the script.\<close>

datatype pc =
    EnqueuePages nat
  | JoinPages
  | StopPages nat
  | JoinPageThreads nat
  | JoinMovies
  | StopMovies nat
  | JoinMovieThreads nat
  | SendMail

text \<open>
  The shared state.  \<open>discovered\<close> and \<open>processed\<close> are not variables of the source:
  they record every address put on \<open>movies_queue\<close> and every address for which a detail
  worker called \<open>task_done\<close>.
\<close>

record state =
  pages_queue :: "pystr option list"
  pages_unfinished :: nat
  movies_queue :: "pystr option list"
  movies_unfinished :: nat
  page_threads :: "thread list"
  movie_threads :: "thread list"
  result_list :: "(pystr \<times> pystr) list"
  main_pc :: pc
  discovered :: "pystr list"
  processed :: "pystr list"

definition num_page_threads :: nat where
  "num_page_threads = 10"

definition num_movie_threads :: nat where
  "num_movie_threads = 18"

text \<open>
  The state after both pools are started and before the first listing page is put on
  its queue, for pools of \<open>np\<close> and \<open>nm\<close> threads.
\<close>

definition start_state :: "nat \<Rightarrow> nat \<Rightarrow> state" where
  "start_state np nm =
     \<lparr>pages_queue = [], pages_unfinished = 0, movies_queue = [], movies_unfinished = 0,
      page_threads = replicate np Idle, movie_threads = replicate nm Idle,
      result_list = [], main_pc = EnqueuePages 1, discovered = [], processed = []\<rparr>"

definition initial_state :: state where
  "initial_state = start_state num_page_threads num_movie_threads"

text \<open>\<open>if not url\<close>: the sentinel and the empty string both end the loop.\<close>

fun falsy :: "pystr option \<Rightarrow> bool" where
  "falsy None = True"
| "falsy (Some url) = (url = [])"

definition terminated :: "thread \<Rightarrow> bool" where
  "terminated t = (case t of Returned \<Rightarrow> True | Died u e \<Rightarrow> True | _ \<Rightarrow> False)"

text \<open>
  One step of the main thread, \<open>None\<close> while it waits: \<open>num_pages\<close> is the number of
  listing pages read from the first page.
\<close>

definition main_step :: "nat \<Rightarrow> state \<Rightarrow> state option" where
  "main_step num_pages s =
     (case main_pc s of
        EnqueuePages page_num \<Rightarrow>
          if page_num \<le> num_pages
          then Some (s\<lparr>pages_queue :=
                          pages_queue s
                          @ [Some (ustr ''http://www.pathe.nl/films?page='' @ str_of_nat page_num)],
                        pages_unfinished := pages_unfinished s + 1,
                        main_pc := EnqueuePages (page_num + 1)\<rparr>)
          else Some (s\<lparr>main_pc := JoinPages\<rparr>)
      | JoinPages \<Rightarrow>
          if pages_unfinished s = 0
          then Some (s\<lparr>main_pc := StopPages (length (page_threads s))\<rparr>)
          else None
      | StopPages k \<Rightarrow>
          if 0 < k
          then Some (s\<lparr>pages_queue := pages_queue s @ [None],
                        pages_unfinished := pages_unfinished s + 1,
                        main_pc := StopPages (k - 1)\<rparr>)
          else Some (s\<lparr>main_pc := JoinPageThreads 0\<rparr>)
      | JoinPageThreads i \<Rightarrow>
          if i < length (page_threads s)
          then (if terminated (page_threads s ! i)
                then Some (s\<lparr>main_pc := JoinPageThreads (i + 1)\<rparr>)
                else None)
          else Some (s\<lparr>main_pc := JoinMovies\<rparr>)
      | JoinMovies \<Rightarrow>
          if movies_unfinished s = 0
          then Some (s\<lparr>main_pc := StopMovies (length (movie_threads s))\<rparr>)
          else None
      | StopMovies k \<Rightarrow>
          if 0 < k
          then Some (s\<lparr>movies_queue := movies_queue s @ [None],
                        movies_unfinished := movies_unfinished s + 1,
                        main_pc := StopMovies (k - 1)\<rparr>)
          else Some (s\<lparr>main_pc := JoinMovieThreads 0\<rparr>)
      | JoinMovieThreads i \<Rightarrow>
          if i < length (movie_threads s)
          then (if terminated (movie_threads s ! i)
                then Some (s\<lparr>main_pc := JoinMovieThreads (i + 1)\<rparr>)
                else None)
          else Some (s\<lparr>main_pc := SendMail\<rparr>)
      | SendMail \<Rightarrow> None)"

text \<open>
  One step of the listing worker \<open>i\<close> (\<open>process_movies_list_page\<close>): it takes an item,
  or does the next thing of its turn.  \<open>None\<close> while it waits at an empty queue and
  after it has ended.
\<close>

definition page_step :: "env \<Rightarrow> nat \<Rightarrow> state \<Rightarrow> state option" where
  "page_step env i s =
     (if length (page_threads s) \<le> i then None
      else case page_threads s ! i of
        Idle \<Rightarrow>
          (case pages_queue s of
             [] \<Rightarrow> None
           | item # rest \<Rightarrow>
               Some (s\<lparr>pages_queue := rest,
                       page_threads := (page_threads s)
                         [i := (case item of
                                  None \<Rightarrow> Returned
                                | Some url \<Rightarrow>
                                    if url = [] then Returned
                                    else Busy url (process_movies_list_page_item env url))]\<rparr>))
      | Busy url [] \<Rightarrow> None
      | Busy url (ev # evs) \<Rightarrow>
          (case ev of
             Put movie_url \<Rightarrow>
               Some (s\<lparr>movies_queue := movies_queue s @ [Some movie_url],
                       movies_unfinished := movies_unfinished s + 1,
                       discovered := discovered s @ [movie_url],
                       page_threads := (page_threads s)[i := Busy url evs]\<rparr>)
           | TaskDone \<Rightarrow>
               if pages_unfinished s = 0
               then Some (s\<lparr>page_threads := (page_threads s)[i := Died url ValueError]\<rparr>)
               else Some (s\<lparr>pages_unfinished := pages_unfinished s - 1,
                             page_threads := (page_threads s)[i := Idle]\<rparr>)
           | Raise e \<Rightarrow> Some (s\<lparr>page_threads := (page_threads s)[i := Died url e]\<rparr>)
           | Append r \<Rightarrow>
               Some (s\<lparr>result_list := result_list s @ [r],
                       page_threads := (page_threads s)[i := Busy url evs]\<rparr>)
           | _ \<Rightarrow> Some (s\<lparr>page_threads := (page_threads s)[i := Busy url evs]\<rparr>))
      | Returned \<Rightarrow> None
      | Died url e \<Rightarrow> None)"

text \<open>One step of the detail worker \<open>i\<close> (\<open>process_movie\<close>), in the same way.\<close>

definition movie_step :: "env \<Rightarrow> nat \<Rightarrow> state \<Rightarrow> state option" where
  "movie_step env i s =
     (if length (movie_threads s) \<le> i then None
      else case movie_threads s ! i of
        Idle \<Rightarrow>
          (case movies_queue s of
             [] \<Rightarrow> None
           | item # rest \<Rightarrow>
               Some (s\<lparr>movies_queue := rest,
                       movie_threads := (movie_threads s)
                         [i := (case item of
                                  None \<Rightarrow> Returned
                                | Some url \<Rightarrow>
                                    if url = [] then Returned
                                    else Busy url (process_movie_item env url))]\<rparr>))
      | Busy url [] \<Rightarrow> None
      | Busy url (ev # evs) \<Rightarrow>
          (case ev of
             Put movie_url \<Rightarrow>
               Some (s\<lparr>movies_queue := movies_queue s @ [Some movie_url],
                       movies_unfinished := movies_unfinished s + 1,
                       discovered := discovered s @ [movie_url],
                       movie_threads := (movie_threads s)[i := Busy url evs]\<rparr>)
           | TaskDone \<Rightarrow>
               if movies_unfinished s = 0
               then Some (s\<lparr>movie_threads := (movie_threads s)[i := Died url ValueError]\<rparr>)
               else Some (s\<lparr>movies_unfinished := movies_unfinished s - 1,
                             processed := processed s @ [url],
                             movie_threads := (movie_threads s)[i := Idle]\<rparr>)
           | Raise e \<Rightarrow> Some (s\<lparr>movie_threads := (movie_threads s)[i := Died url e]\<rparr>)
           | Append r \<Rightarrow>
               Some (s\<lparr>result_list := result_list s @ [r],
                       movie_threads := (movie_threads s)[i := Busy url evs]\<rparr>)
           | _ \<Rightarrow> Some (s\<lparr>movie_threads := (movie_threads s)[i := Busy url evs]\<rparr>))
      | Returned \<Rightarrow> None
      | Died url e \<Rightarrow> None)"

text \<open>
  A run is a list of choices of the scheduler: which thread takes the next step.  A
  choice of a thread that cannot take a step is no run.
\<close>

datatype tid = Main | PageThread nat | MovieThread nat

fun step :: "env \<Rightarrow> nat \<Rightarrow> tid \<Rightarrow> state \<Rightarrow> state option" where
  "step env num_pages Main s = main_step num_pages s"
| "step env num_pages (PageThread i) s = page_step env i s"
| "step env num_pages (MovieThread i) s = movie_step env i s"

fun run :: "env \<Rightarrow> nat \<Rightarrow> tid list \<Rightarrow> state \<Rightarrow> state option" where
  "run env num_pages [] s = Some s"
| "run env num_pages (t # ts) s =
     (case step env num_pages t s of
        None \<Rightarrow> None
      | Some s' \<Rightarrow> run env num_pages ts s')"

section \<open>Auxiliary notions for the statements\<close>

text \<open>Whether a thread is in a turn of its loop.\<close>

fun busy :: "thread \<Rightarrow> bool" where
  "busy (Busy url evs) = True"
| "busy t = False"

text \<open>
  What the detail worker \<open>i\<close> adds to \<open>result_list\<close> in one turn, read from the shared
  state: the schedule starts with the step in which the worker takes its item, other
  threads may take steps in between, and the worker's own steps are followed until it
  is no longer in that turn.
\<close>

fun appended_in_turn ::
  "env \<Rightarrow> nat \<Rightarrow> nat \<Rightarrow> tid list \<Rightarrow> state \<Rightarrow> (pystr \<times> pystr) list" where
  "appended_in_turn env num_pages i [] s = []"
| "appended_in_turn env num_pages i (t # ts) s =
     (case step env num_pages t s of
        None \<Rightarrow> []
      | Some s' \<Rightarrow>
          (if t = MovieThread i then drop (length (result_list s)) (result_list s') else [])
          @ (if busy (movie_threads s' ! i) then appended_in_turn env num_pages i ts s'
             else []))"

text \<open>The part of a turn before it ends.\<close>

fun until_end :: "event list \<Rightarrow> event list" where
  "until_end [] = []"
| "until_end (TaskDone # evs) = []"
| "until_end (Raise e # evs) = []"
| "until_end (ev # evs) = ev # until_end evs"

text \<open>What a turn appends to \<open>result_list\<close>.\<close>

fun appended :: "event list \<Rightarrow> (pystr \<times> pystr) list" where
  "appended [] = []"
| "appended (Append r # evs) = r # appended evs"
| "appended (ev # evs) = appended evs"

text \<open>The addresses on a queue, and the addresses that the threads of a pool hold.\<close>

fun urls_of :: "pystr option list \<Rightarrow> pystr multiset" where
  "urls_of [] = {#}"
| "urls_of (None # q) = urls_of q"
| "urls_of (Some url # q) = {#url#} + urls_of q"

fun held_by :: "thread \<Rightarrow> pystr multiset" where
  "held_by (Busy url evs) = {#url#}"
| "held_by (Died url e) = {#url#}"
| "held_by t = {#}"

definition held :: "thread list \<Rightarrow> pystr multiset" where
  "held ts = sum_list (map held_by ts)"

text \<open>The number of threads of a pool that have taken an item and not finished it.\<close>

definition engaged :: "thread list \<Rightarrow> nat" where
  "engaged ts = length (filter (\<lambda>t. t \<noteq> Idle) ts)"

text \<open>A white-space character directly followed by an opening parenthesis.\<close>

fun space_paren :: "pystr \<Rightarrow> bool" where
  "space_paren (x # y # zs) = ((py_isspace x \<and> y = 40) \<or> space_paren (y # zs))"
| "space_paren zs = False"

text \<open>The directory of the icons, and the part of \<open>restriction_re\<close> after its repetition.\<close>

definition kijkwijzer_dir :: pystr where
  "kijkwijzer_dir = ustr ''/themes/main/gfx/icons/kijkwijzer/''"

definition png_tail :: "item list" where
  "png_tail = Close # One Dot # lits ''png'' @ [Eos]"

text \<open>
  The amended claim on the rating icons, in its own words.  The name of an icon path:
  the path is the directory of the rating icons, a name, one more character and
  \<open>png\<close>, possibly followed by one final newline, with no newline before that;
  \<open>None\<close> for a path of any other shape.
\<close>

definition icon_name :: "pystr \<Rightarrow> pystr option" where
  "icon_name p =
     (let body = (if p \<noteq> [] \<and> last p = 10 then butlast p else p);
          n = length body
      in if 38 \<le> n \<and> take 34 body = kijkwijzer_dir \<and> drop (n - 3) body = ustr ''png''
            \<and> \<not> List.member (drop 34 body) 10
         then Some (take (n - 38) (drop 34 body))
         else None)"

text \<open>
  What an icon path stands for: nothing (a path of another shape), a tag, or a name
  that no naming convention knows.
\<close>

datatype icon = Foreign | Tag pystr | Unrecognised

definition icon_tag :: "pystr \<Rightarrow> icon" where
  "icon_tag p =
     (case icon_name p of
        None \<Rightarrow> Foreign
      | Some name \<Rightarrow>
          if name = ustr ''rating-onbekend-z'' then Tag (ustr ''unknown'')
          else if name = ustr ''rating-nvt-z'' then Tag (ustr ''n/a'')
          else if py_contains (ustr ''kijkwijzer-'') name
          then Tag (py_split (ustr ''kijkwijzer-'') name ! 1)
          else Unrecognised)"

fun tags_of :: "icon \<Rightarrow> pystr list" where
  "tags_of (Tag t) = [t]"
| "tags_of i = []"

text \<open>The parts of \<open>title_re\<close> after its first and after its second repetition.\<close>

definition title_tail :: "item list" where
  "title_tail =
     [Close, One Space, Open, One (Ch 40), Rep Dot 0 None, One (Ch 41), Close, Eos]"

definition paren_close :: "item list" where
  "paren_close = [One (Ch 41), Close, Eos]"

section \<open>Two small worlds for the examples\<close>

text \<open>A world in which every call to a library fails.\<close>

definition unreachable_env :: env where
  "unreachable_env =
     \<lparr>gs_translate = (\<lambda>text. Inl UrllibURLError),
      py_float = (\<lambda>s. None),
      requests_get = (\<lambda>url. Inl RequestsError),
      imdb_get = (\<lambda>url params. Inl RequestsError),
      lh_fromstring = (\<lambda>text. Inl (OtherError ''ParserError''))\<rparr>"

text \<open>
  A world with one listing page, three detail pages and a film database.  The text of
  a page is its address (followed, for a search, by a question mark and the title
  searched for), so that \<open>demo_doc\<close> can tell the pages apart.
\<close>

definition demo_doc :: "pystr \<Rightarrow> html_doc" where
  "demo_doc text =
     (if text = ustr ''http://www.pathe.nl/films?page=1'' then
        absent_doc\<lparr>xp_movies_overview :=
          [\<lparr>btn_span_texts = [ustr ''Verwacht''], overlay_hrefs = [ustr ''/film/1/amelie'']\<rparr>,
           \<lparr>btn_span_texts = [ustr ''Uitverkocht''], overlay_hrefs = [ustr ''/film/3/heat'']\<rparr>]\<rparr>
      else if text = ustr ''http://www.pathe.nl/film/1/amelie'' then
        absent_doc\<lparr>xp_h1_name := ustr ''Am'' @ [233] @ ustr ''lie (French with subtitles)''\<rparr>
      else if text = ustr ''http://www.pathe.nl/film/2/tosca'' then
        absent_doc\<lparr>xp_special := ustr ''Special: Path'' @ [233] @ ustr ''Opera'',
                    xp_h1_name := ustr ''Tosca''\<rparr>
      else if text = ustr ''http://www.pathe.nl/film/3/heat'' then
        absent_doc\<lparr>xp_h1_name := ustr ''Heat''\<rparr>
      else if text = ustr ''http://www.pathe.nl/film/4/solaris'' then
        absent_doc\<lparr>xp_h1_name := ustr ''Solaris''\<rparr>
      else if text = ustr ''http://www.imdb.com/find?Am'' @ [233] @ ustr ''lie'' then
        absent_doc\<lparr>xp_find_titles := [ustr ''/title/tt0000007/?ref_=fn_ft_tt_1'']\<rparr>
      else if text = ustr ''http://www.imdb.com/find?Tosca'' then
        absent_doc\<lparr>xp_find_titles := [ustr ''/title/tt0000007/?ref_=fn_ft_tt_1'']\<rparr>
      else if text = ustr ''http://www.imdb.com/find?Heat'' then
        absent_doc\<lparr>xp_find_titles := [ustr ''/title/tt0000005/?ref_=fn_ft_tt_1'']\<rparr>
      else if text = ustr ''http://www.imdb.com/find?Solaris'' then
        absent_doc\<lparr>xp_find_titles := [ustr ''/title/tt0000009/?ref_=fn_ft_tt_1'']\<rparr>
      else if text = ustr ''http://www.imdb.com/title/tt7'' then
        absent_doc\<lparr>xp_rating_value := [ustr '' 8.1 '']\<rparr>
      else if text = ustr ''http://www.imdb.com/title/tt5'' then
        absent_doc\<lparr>xp_rating_value := [ustr ''8.0'']\<rparr>
      else absent_doc)"

definition demo_env :: env where
  "demo_env =
     \<lparr>gs_translate = (\<lambda>text. Inr text),
      py_float = (\<lambda>s. if s = ustr ''8.1'' then Some (Finite (81 / 10))
                       else if s = ustr ''8.0'' then Some (Finite 8)
                       else None),
      requests_get = (\<lambda>url. Inr url),
      imdb_get = (\<lambda>url params. Inr (case params of [] \<Rightarrow> url | (k, v) # _ \<Rightarrow> url @ [63] @ v)),
      lh_fromstring = (\<lambda>text. Inr (demo_doc text))\<rparr>"

section \<open>Lemmas on the matcher\<close>


lemma star_skip:
  "list_all (cls_ok c) A \<Longrightarrow> rmatch (Rep c 0 None # ps) R (pos + length A) ms = Some r
   \<Longrightarrow> rmatch (Rep c 0 None # ps) (A @ R) pos ms = Some r"
  by (induction A arbitrary: pos) auto

lemma star_here:
  "rmatch (Rep c 0 None # ps) xs (Suc pos) ms = None \<Longrightarrow> rmatch ps (x # xs) pos ms = Some r
   \<Longrightarrow> rmatch (Rep c 0 None # ps) (x # xs) pos ms = Some r"
  by simp

lemma star_fail:
  "(\<And>i. i \<le> length Z \<Longrightarrow> rmatch ps (drop i Z) (pos + i) ms = None)
   \<Longrightarrow> rmatch (Rep c 0 None # ps) Z pos ms = None"
proof (induction Z arbitrary: pos)
  case Nil
  then show ?case using Nil[of 0] by simp
next
  case (Cons x xs)
  have a: "rmatch ps (x # xs) pos ms = None" using Cons.prems[of 0] by simp
  have b: "rmatch (Rep c 0 None # ps) xs (Suc pos) ms = None"
  proof (rule Cons.IH)
    fix i assume "i \<le> length xs"
    then show "rmatch ps (drop i xs) (Suc pos + i) ms = None"
      using Cons.prems[of "Suc i"] by simp
  qed
  show ?case using a b by simp
qed

lemma star_sound:
  "rmatch (Rep c 0 None # ps) s pos ms = Some r
   \<Longrightarrow> \<exists>i\<le>length s. list_all (cls_ok c) (take i s) \<and> rmatch ps (drop i s) (pos + i) ms = Some r"
proof (induction s arbitrary: pos)
  case Nil
  then show ?case by simp
next
  case (Cons x xs)
  show ?case
  proof (cases "cls_ok c x \<and> rmatch (Rep c 0 None # ps) xs (Suc pos) ms = Some r")
    case True
    then obtain i where "i \<le> length xs" "list_all (cls_ok c) (take i xs)"
      "rmatch ps (drop i xs) (Suc pos + i) ms = Some r"
      using Cons.IH by blast
    then show ?thesis using True by (intro exI[of _ "Suc i"]) simp
  next
    case False
    then have "rmatch ps (x # xs) pos ms = Some r"
      using Cons.prems by (auto split: if_splits option.splits)
    then show ?thesis by (intro exI[of _ 0]) simp
  qed
qed

section \<open>Title normalization\<close>

lemma dot_all: "10 \<notin> set A \<Longrightarrow> list_all (cls_ok Dot) A"
  by (induction A) auto

lemma paren_close_shape:
  "rmatch paren_close z p m = Some r \<Longrightarrow> (z = [41] \<or> z = [41, 10]) \<and> r = rev (Suc p # m)"
  unfolding paren_close_def by (cases z) (auto split: if_splits)

lemma title_tail_shape:
  "rmatch title_tail z p m = Some r \<Longrightarrow>
   \<exists>x zs. z = x # 40 # zs \<and> py_isspace x
     \<and> rmatch (Rep Dot 0 None # paren_close) zs (p + 2) (Suc p # p # m) = Some r"
  unfolding title_tail_def paren_close_def
  by (cases z; cases "tl z") (auto split: if_splits)

lemma space_paren_Cons: "space_paren B \<Longrightarrow> space_paren (b # B)"
  by (cases B) auto

lemma space_paren_drop:
  "drop j (B @ e) = x # 40 # zs \<Longrightarrow> py_isspace x \<Longrightarrow> 40 \<notin> set e \<Longrightarrow> space_paren B"
proof (induction B arbitrary: j)
  case Nil
  then have "40 \<in> set (drop j e)" by simp
  then show ?case using Nil.prems(3) by (meson in_set_dropD)
next
  case (Cons b B)
  show ?case
  proof (cases j)
    case 0
    with Cons.prems have "b = x" "B @ e = 40 # zs" by auto
    then show ?thesis using Cons.prems(2,3) by (cases B) auto
  next
    case (Suc j')
    with Cons.prems have "drop j' (B @ e) = x # 40 # zs" by simp
    then show ?thesis using Cons.IH Cons.prems(2,3) space_paren_Cons by blast
  qed
qed

lemma title_tail_fails_inside:
  assumes "\<not> space_paren B" "40 \<notin> set e"
  shows "rmatch title_tail (drop i (40 # B @ e)) p m = None"
proof (rule ccontr)
  assume "rmatch title_tail (drop i (40 # B @ e)) p m \<noteq> None"
  then obtain r where "rmatch title_tail (drop i (40 # B @ e)) p m = Some r" by auto
  then obtain x zs where z: "drop i (40 # B @ e) = x # 40 # zs" and x: "py_isspace x"
    using title_tail_shape by blast
  show False
  proof (cases i)
    case 0
    with z x show False by (simp add: py_isspace_def)
  next
    case (Suc j)
    with z have "drop j (B @ e) = x # 40 # zs" by simp
    then show False using space_paren_drop x assms by blast
  qed
qed

lemma paren_close_ok:
  assumes "10 \<notin> set B" "e = [41] \<or> e = [41, 10]"
  shows "rmatch (Rep Dot 0 None # paren_close) (B @ e) q m = Some (rev (Suc (q + length B) # m))"
proof (rule star_skip)
  show "list_all (cls_ok Dot) B" using assms(1) by (rule dot_all)
  show "rmatch (Rep Dot 0 None # paren_close) e (q + length B) m = Some (rev (Suc (q + length B) # m))"
    using assms(2) by (auto simp: paren_close_def)
qed

lemma title_tail_ok:
  assumes "py_isspace w" "10 \<notin> set B" "e = [41] \<or> e = [41, 10]"
  shows "rmatch title_tail (w # 40 # B @ e) p m
         = Some (rev (Suc (p + 2 + length B) # Suc p # p # m))"
proof -
  have "rmatch title_tail (w # 40 # B @ e) p m
        = rmatch (Rep Dot 0 None # paren_close) (B @ e) (p + 2) (Suc p # p # m)"
    using assms(1) by (simp add: title_tail_def paren_close_def)
  then show ?thesis using paren_close_ok[OF assms(2,3)] by simp
qed

lemma title_re_unfold:
  "rmatch title_re t 0 [] = rmatch (Rep Dot 0 None # title_tail) t 0 [0]"
  by (simp add: title_re_def title_tail_def)

lemma title_match_last:
  assumes w: "py_isspace w" and A: "10 \<notin> set A" and B: "10 \<notin> set B"
    and nsp: "\<not> space_paren B" and e: "e = [41] \<or> e = [41, 10]"
  shows "re_match title_re (A @ w # 40 # B @ e) = Some [A, 40 # B @ [41]]"
proof -
  let ?R = "w # 40 # B @ e"
  let ?r = "rev [Suc (length A + 2 + length B), Suc (length A), length A, 0]"
  have e40: "40 \<notin> set e" using e by auto
  have inner: "rmatch (Rep Dot 0 None # title_tail) (40 # B @ e) (Suc (length A)) [0] = None"
    by (rule star_fail) (rule title_tail_fails_inside[OF nsp e40])
  have here: "rmatch title_tail ?R (length A) [0] = Some ?r"
    using title_tail_ok[OF w B e, of "length A" "[0]"] by simp
  have "rmatch (Rep Dot 0 None # title_tail) ?R (length A) [0] = Some ?r"
    using inner here by (rule star_here)
  then have "rmatch (Rep Dot 0 None # title_tail) ?R (0 + length A) [0] = Some ?r"
    by simp
  then have "rmatch (Rep Dot 0 None # title_tail) (A @ ?R) 0 [0] = Some ?r"
    using star_skip[OF dot_all[OF A]] by blast
  then have "rmatch title_re (A @ ?R) 0 [] = Some ?r"
    by (simp add: title_re_unfold)
  moreover have "take (Suc (Suc (length B))) (40 # B @ e) = 40 # B @ [41]"
    using e by auto
  ultimately show ?thesis
    by (simp add: re_match_def)
qed

lemma title_match_shape:
  assumes "re_match title_re t = Some gs"
  shows "\<exists>A w B. py_isspace w \<and> (t = A @ w # 40 # B @ [41] \<or> t = A @ w # 40 # B @ [41, 10])"
proof -
  from assms obtain r where "rmatch (Rep Dot 0 None # title_tail) t 0 [0] = Some r"
    by (auto simp: re_match_def title_re_unfold)
  then obtain i where i: "rmatch title_tail (drop i t) (0 + i) [0] = Some r"
    using star_sound by blast
  then obtain w z where t: "drop i t = w # 40 # z" and w: "py_isspace w"
    and "rmatch (Rep Dot 0 None # paren_close) z (0 + i + 2) [Suc (0 + i), 0 + i, 0] = Some r"
    using title_tail_shape by blast
  then obtain j where "rmatch paren_close (drop j z) (0 + i + 2 + j) [Suc (0 + i), 0 + i, 0] = Some r"
    using star_sound by blast
  then have "drop j z = [41] \<or> drop j z = [41, 10]"
    using paren_close_shape by blast
  moreover have "t = take i t @ w # 40 # take j z @ drop j z"
    using t by (metis append_take_drop_id)
  ultimately show ?thesis using w by metis
qed

lemma trailing_parenthetical_last:
  "t = A @ w # 40 # B @ [41] \<or> t = A @ w # 40 # B @ [41, 10] \<Longrightarrow> last t = 41 \<or> last t = 10"
  by auto

text \<open>
  Claim C6, as stated, fails: the dot of the pattern does not match a newline, so a
  title of the form \<open><title> (<note>)\<close> with a newline in it, as an \<open>h1\<close> written on
  several lines gives, is returned with its clause in parentheses.
\<close>

theorem get_movie_title_keeps_clause_after_newline:
  "get_movie_title (absent_doc\<lparr>xp_h1_name := 10 # ustr ''Foo (bar)''\<rparr>)
   = 10 # ustr ''Foo (bar)''"
  by (simp add: get_movie_title_def title_xpath_def absent_doc_def re_match_def title_re_def
        ustr_def py_isspace_def)

text \<open>
  Claim C6, amended.  Let the title of the page be \<open>t\<close>.  When \<open>t\<close> is \<open>A\<close>, one
  white-space character, and a clause in parentheses with the text \<open>B\<close> (possibly
  followed by one final newline), where \<open>A\<close> and \<open>B\<close> have no newline and the clause is
  the last one (no white space directly followed by an opening parenthesis inside
  \<open>B\<close>), then \<open>get_movie_title\<close> returns \<open>A\<close>: exactly that one clause is removed.  When
  \<open>t\<close> does not end in a white-space character and a clause in parentheses,
  \<open>get_movie_title\<close> returns \<open>t\<close> unchanged.
\<close>

theorem get_movie_title_strips_trailing_parenthetical:
  assumes "title_xpath movie_page_doc = t"
  shows "(py_isspace w \<and> 10 \<notin> set A \<and> 10 \<notin> set B \<and> \<not> space_paren B
            \<and> (t = A @ w # 40 # B @ [41] \<or> t = A @ w # 40 # B @ [41, 10])
          \<longrightarrow> get_movie_title movie_page_doc = A)
       \<and> ((\<nexists>A w B. py_isspace w
               \<and> (t = A @ w # 40 # B @ [41] \<or> t = A @ w # 40 # B @ [41, 10]))
          \<longrightarrow> get_movie_title movie_page_doc = t)"
proof (intro conjI impI)
  assume h: "py_isspace w \<and> 10 \<notin> set A \<and> 10 \<notin> set B \<and> \<not> space_paren B
            \<and> (t = A @ w # 40 # B @ [41] \<or> t = A @ w # 40 # B @ [41, 10])"
  then obtain e where e: "e = [41] \<or> e = [41, 10]" and t: "t = A @ w # 40 # B @ e" by auto
  have "re_match title_re t = Some [A, 40 # B @ [41]]"
    unfolding t using h e by (intro title_match_last) auto
  then show "get_movie_title movie_page_doc = A"
    using assms by (simp add: get_movie_title_def)
next
  assume "\<nexists>A w B. py_isspace w
               \<and> (t = A @ w # 40 # B @ [41] \<or> t = A @ w # 40 # B @ [41, 10])"
  then have "re_match title_re t = None"
    using title_match_shape by (cases "re_match title_re t") blast+
  then show "get_movie_title movie_page_doc = t"
    using assms by (simp add: get_movie_title_def)
qed

theorem get_movie_title_witness:
  "get_movie_title (absent_doc\<lparr>xp_h1_name := ustr ''Am'' @ [233] @ ustr ''lie (French with subtitles)''\<rparr>)
     = ustr ''Am'' @ [233] @ ustr ''lie''
   \<and> get_movie_title (absent_doc\<lparr>xp_page_title_h1 := ustr ''Foo (a) (b)''\<rparr>) = ustr ''Foo (a)''
   \<and> get_movie_title (absent_doc\<lparr>xp_h1_name := ustr ''Am'' @ [233] @ ustr ''lie''\<rparr>)
     = ustr ''Am'' @ [233] @ ustr ''lie''"
proof (intro conjI)
  let ?d = "absent_doc\<lparr>xp_h1_name := ustr ''Am'' @ [233] @ ustr ''lie (French with subtitles)''\<rparr>"
  have "title_xpath ?d = (ustr ''Am'' @ [233] @ ustr ''lie'') @ 32 # 40 # ustr ''French with subtitles'' @ [41]"
    by (simp add: title_xpath_def absent_doc_def ustr_def)
  from get_movie_title_strips_trailing_parenthetical[OF this, of 32 "ustr ''Am'' @ [233] @ ustr ''lie''" "ustr ''French with subtitles''"]
  show "get_movie_title ?d = ustr ''Am'' @ [233] @ ustr ''lie''"
    by (simp add: ustr_def py_isspace_def)
next
  let ?d = "absent_doc\<lparr>xp_page_title_h1 := ustr ''Foo (a) (b)''\<rparr>"
  have "title_xpath ?d = ustr ''Foo (a)'' @ 32 # 40 # ustr ''b'' @ [41]"
    by (simp add: title_xpath_def absent_doc_def ustr_def)
  from get_movie_title_strips_trailing_parenthetical[OF this, of 32 "ustr ''Foo (a)''" "ustr ''b''"]
  show "get_movie_title ?d = ustr ''Foo (a)''"
    by (simp add: ustr_def py_isspace_def)
next
  let ?d = "absent_doc\<lparr>xp_h1_name := ustr ''Am'' @ [233] @ ustr ''lie''\<rparr>"
  let ?t = "ustr ''Am'' @ [233] @ ustr ''lie''"
  have t: "title_xpath ?d = ?t"
    by (simp add: title_xpath_def absent_doc_def ustr_def)
  have "\<nexists>A w B. py_isspace w \<and> (?t = A @ w # 40 # B @ [41] \<or> ?t = A @ w # 40 # B @ [41, 10])"
  proof
    assume "\<exists>A w B. py_isspace w \<and> (?t = A @ w # 40 # B @ [41] \<or> ?t = A @ w # 40 # B @ [41, 10])"
    then have "last ?t = 41 \<or> last ?t = 10"
      using trailing_parenthetical_last by blast
    then show False by (simp add: ustr_def)
  qed
  with get_movie_title_strips_trailing_parenthetical[OF t]
  show "get_movie_title ?d = ?t" by blast
qed

section \<open>Translation failures\<close>

text \<open>
  Claim C10, as stated, fails: a failure of the translation call that is not a
  \<open>urllib.error.HTTPError\<close>, here a \<open>URLError\<close> for a host that cannot be reached,
  comes out of \<open>nl_to_en\<close>.
\<close>

theorem nl_to_en_propagates_url_error:
  "nl_to_en unreachable_env (ustr ''komedie'') = Inl UrllibURLError"
  by (simp add: nl_to_en_def unreachable_env_def)

text \<open>
  Claim C10, amended.  For every text: when the translation call returns, \<open>nl_to_en\<close>
  returns its result; when it raises \<open>urllib.error.HTTPError\<close>, \<open>nl_to_en\<close> returns the
  text unchanged; when it raises anything else, \<open>nl_to_en\<close> raises the same exception.
\<close>

theorem nl_to_en_swallows_http_error_only:
  "(gs_translate env text = Inr translated \<longrightarrow> nl_to_en env text = Inr translated)
   \<and> (gs_translate env text = Inl UrllibHTTPError \<longrightarrow> nl_to_en env text = Inr text)
   \<and> (gs_translate env text = Inl e \<and> e \<noteq> UrllibHTTPError \<longrightarrow> nl_to_en env text = Inl e)"
  by (simp add: nl_to_en_def)

theorem nl_to_en_witness:
  "nl_to_en (unreachable_env\<lparr>gs_translate := (\<lambda>text. Inl UrllibHTTPError)\<rparr>) (ustr ''komedie'')
     = Inr (ustr ''komedie'')
   \<and> nl_to_en (unreachable_env\<lparr>gs_translate := (\<lambda>text. Inl SocketError)\<rparr>) (ustr ''komedie'')
     = Inl SocketError
   \<and> nl_to_en demo_env (ustr ''komedie'') = Inr (ustr ''komedie'')"
  using nl_to_en_swallows_http_error_only
          [of "unreachable_env\<lparr>gs_translate := (\<lambda>text. Inl UrllibHTTPError)\<rparr>"
              "ustr ''komedie''" "ustr ''komedie''" UrllibHTTPError]
        nl_to_en_swallows_http_error_only
          [of "unreachable_env\<lparr>gs_translate := (\<lambda>text. Inl SocketError)\<rparr>"
              "ustr ''komedie''" "ustr ''komedie''" SocketError]
        nl_to_en_swallows_http_error_only
          [of demo_env "ustr ''komedie''" "ustr ''komedie''" SocketError]
  by (simp add: unreachable_env_def demo_env_def)

section \<open>Content restrictions\<close>

lemma rmatch_lits:
  "rmatch (lits l @ ps) s pos ms =
     (if take (length l) s = ustr l then rmatch ps (drop (length l) s) (pos + length l) ms
      else None)"
proof (induction l arbitrary: s pos)
  case Nil
  then show ?case by (simp add: lits_def ustr_def)
next
  case (Cons a l)
  have IH: "\<And>s pos. rmatch (lits l @ ps) s pos ms =
     (if take (length l) s = ustr l then rmatch ps (drop (length l) s) (pos + length l) ms
      else None)"
    using Cons.IH by blast
  have unf: "lits (a # l) @ ps = One (Ch (of_char a)) # (lits l @ ps)"
    by (simp add: lits_def)
  show ?case
  proof (cases s)
    case Nil
    then show ?thesis by (simp add: unf ustr_def)
  next
    case (Cons x xs)
    then show ?thesis by (simp add: unf IH) (auto simp: ustr_def)
  qed
qed

lemma png_then_end:
  "rmatch (lits ''png'' @ [Eos]) z q ms =
     (if take 3 z = ustr ''png'' \<and> (drop 3 z = [] \<or> drop 3 z = [10]) then Some (rev ms)
      else None)"
proof -
  have len: "length ''png'' = 3" by simp
  show ?thesis unfolding rmatch_lits len by simp
qed

lemma png_tail_shape:
  "rmatch png_tail z p m = Some r \<longleftrightarrow>
     (\<exists>c e. z = c # ustr ''png'' @ e \<and> c \<noteq> 10 \<and> (e = [] \<or> e = [10]) \<and> r = rev (p # m))"
proof -
  have eq: "rmatch png_tail z p m = (case z of [] \<Rightarrow> None
           | c # z' \<Rightarrow> if c \<noteq> 10 \<and> take 3 z' = ustr ''png'' \<and> (drop 3 z' = [] \<or> drop 3 z' = [10])
                        then Some (rev (p # m)) else None)"
    by (cases z) (simp_all add: png_tail_def png_then_end)
  show ?thesis
  proof
    assume "rmatch png_tail z p m = Some r"
    then obtain c z' where z: "z = c # z'" and c: "c \<noteq> 10" and t: "take 3 z' = ustr ''png''"
      and d: "drop 3 z' = [] \<or> drop 3 z' = [10]" and r: "r = rev (p # m)"
      unfolding eq by (cases z) (auto split: if_splits)
    have "z' = ustr ''png'' @ drop 3 z'" using t by (metis append_take_drop_id)
    then show "\<exists>c e. z = c # ustr ''png'' @ e \<and> c \<noteq> 10 \<and> (e = [] \<or> e = [10]) \<and> r = rev (p # m)"
      using z c d r by blast
  next
    assume "\<exists>c e. z = c # ustr ''png'' @ e \<and> c \<noteq> 10 \<and> (e = [] \<or> e = [10]) \<and> r = rev (p # m)"
    then show "rmatch png_tail z p m = Some r"
      unfolding eq by (auto simp: ustr_def)
  qed
qed

lemma png_tail_fails_inside:
  assumes "e = [] \<or> e = [10]"
  shows "rmatch png_tail (drop i (ustr ''png'' @ e)) p m = None"
proof (rule ccontr)
  assume "rmatch png_tail (drop i (ustr ''png'' @ e)) p m \<noteq> None"
  then obtain r where "rmatch png_tail (drop i (ustr ''png'' @ e)) p m = Some r" by auto
  then obtain c e' where d: "drop i (ustr ''png'' @ e) = c # ustr ''png'' @ e'"
    using png_tail_shape by blast
  have "length (drop i (ustr ''png'' @ e)) \<ge> 4" unfolding d by (simp add: ustr_def)
  then have "i = 0 \<and> e = [10]" using assms by (auto simp: ustr_def)
  then show False using d by (simp add: ustr_def)
qed

lemma restriction_re_unfold:
  "rmatch restriction_re p 0 [] =
     (if take 34 p = kijkwijzer_dir then rmatch (Rep Dot 0 None # png_tail) (drop 34 p) 34 [34]
      else None)"
proof -
  have eq: "restriction_re
            = lits ''/themes/main/gfx/icons/kijkwijzer/'' @ (Open # Rep Dot 0 None # png_tail)"
    by (simp add: restriction_re_def png_tail_def)
  have len: "length ''/themes/main/gfx/icons/kijkwijzer/'' = 34" by simp
  show ?thesis unfolding eq rmatch_lits len kijkwijzer_dir_def by simp
qed

lemma restriction_match_complete:
  assumes n: "10 \<notin> set name" and c: "c \<noteq> 10" and e: "e = [] \<or> e = [10]"
  shows "re_match restriction_re (kijkwijzer_dir @ name @ c # ustr ''png'' @ e) = Some [name]"
proof -
  let ?R = "c # ustr ''png'' @ e"
  let ?p = "kijkwijzer_dir @ name @ ?R"
  have len: "length kijkwijzer_dir = 34" by (simp add: kijkwijzer_dir_def ustr_def)
  have inner: "rmatch (Rep Dot 0 None # png_tail) (ustr ''png'' @ e) (Suc (34 + length name)) [34] = None"
    by (rule star_fail) (rule png_tail_fails_inside[OF e])
  have here: "rmatch png_tail ?R (34 + length name) [34] = Some (rev [34 + length name, 34])"
    using c e by (subst png_tail_shape) auto
  have "rmatch (Rep Dot 0 None # png_tail) ?R (34 + length name) [34] = Some (rev [34 + length name, 34])"
    using inner here by (rule star_here)
  then have "rmatch (Rep Dot 0 None # png_tail) (name @ ?R) 34 [34] = Some (rev [34 + length name, 34])"
    using star_skip[OF dot_all[OF n]] by blast
  then have "rmatch restriction_re ?p 0 [] = Some [34, 34 + length name]"
    using len by (simp add: restriction_re_unfold)
  then show ?thesis using len by (simp add: re_match_def)
qed

lemma restriction_match_sound:
  assumes "re_match restriction_re p = Some gs"
  shows "\<exists>name c e. p = kijkwijzer_dir @ name @ c # ustr ''png'' @ e
           \<and> 10 \<notin> set name \<and> c \<noteq> 10 \<and> (e = [] \<or> e = [10])"
proof -
  from assms obtain r where r: "rmatch restriction_re p 0 [] = Some r"
    by (auto simp: re_match_def)
  then have pre: "take 34 p = kijkwijzer_dir"
    and "rmatch (Rep Dot 0 None # png_tail) (drop 34 p) 34 [34] = Some r"
    by (auto simp: restriction_re_unfold split: if_splits)
  then obtain i where all: "list_all (cls_ok Dot) (take i (drop 34 p))"
    and "rmatch png_tail (drop i (drop 34 p)) (34 + i) [34] = Some r"
    using star_sound by blast
  then obtain c e where d: "drop i (drop 34 p) = c # ustr ''png'' @ e" and c: "c \<noteq> 10"
    and e: "e = [] \<or> e = [10]"
    using png_tail_shape by blast
  have "p = take 34 p @ take i (drop 34 p) @ drop i (drop 34 p)"
    by (metis append_take_drop_id)
  then have "p = kijkwijzer_dir @ take i (drop 34 p) @ c # ustr ''png'' @ e"
    using pre d by simp
  moreover have "10 \<notin> set (take i (drop 34 p))"
    using all by (auto simp: list_all_iff)
  ultimately show ?thesis using c e by blast
qed

text \<open>
  Claim C8, as stated, fails: an icon path outside the directory of the rating icons
  matches no naming convention, and \<open>get_movie_restrictions\<close> passes over it and returns
  a list instead of raising.
\<close>

theorem get_movie_restrictions_skips_foreign_path:
  "get_movie_restrictions
     (absent_doc\<lparr>xp_kijkwijzer_src := [ustr ''/themes/main/gfx/icons/leeftijd-12.png'']\<rparr>)
   = Inr []"
  by (simp add: get_movie_restrictions_def absent_doc_def re_match_def restriction_re_unfold
        kijkwijzer_dir_def ustr_def)

lemma split_sep_nonempty: "1 \<le> length (split_sep sep k cur s)"
  by (induction s arbitrary: k cur) auto

lemma split_sep_contains:
  "py_contains sep s \<Longrightarrow> sep \<noteq> [] \<Longrightarrow> 2 \<le> length (split_sep sep 0 cur s)"
proof (induction s arbitrary: cur)
  case Nil
  then show ?case by simp
next
  case (Cons c cs)
  show ?case
  proof (cases "take (length sep) (c # cs) = sep")
    case True
    then show ?thesis
      using split_sep_nonempty[of sep "length sep - 1" "[]" cs] by simp
  next
    case False
    then have "py_contains sep cs" using Cons.prems(1) by simp
    then show ?thesis using Cons.IH Cons.prems(2) False by simp
  qed
qed

lemma kijkwijzer_tag_exists:
  assumes "py_contains (ustr ''kijkwijzer-'') name"
  shows "py_nth (py_split (ustr ''kijkwijzer-'') name) 1
         = Inr (py_split (ustr ''kijkwijzer-'') name ! 1)"
proof -
  have "ustr ''kijkwijzer-'' \<noteq> []" by (simp add: ustr_def)
  then have "2 \<le> length (py_split (ustr ''kijkwijzer-'') name)"
    unfolding py_split_def using assms by (intro split_sep_contains)
  then show ?thesis by (simp add: py_nth_def)
qed

lemma icon_name_shape:
  "icon_name p = Some name \<longleftrightarrow>
     (\<exists>c e. p = kijkwijzer_dir @ name @ c # ustr ''png'' @ e
        \<and> 10 \<notin> set name \<and> c \<noteq> 10 \<and> (e = [] \<or> e = [10]))"
proof
  assume h: "icon_name p = Some name"
  define body where "body = (if p \<noteq> [] \<and> last p = 10 then butlast p else p)"
  define e where "e = (if p \<noteq> [] \<and> last p = 10 then [10::nat] else [])"
  define r where "r = drop 34 body"
  have pe: "p = body @ e"
  proof (cases "p \<noteq> [] \<and> last p = 10")
    case True
    then have "butlast p @ [10] = p" using append_butlast_last_id[of p] by simp
    then show ?thesis unfolding body_def e_def using True by simp
  next
    case False
    then show ?thesis unfolding body_def e_def by auto
  qed
  have c: "38 \<le> length body" "take 34 body = kijkwijzer_dir"
    "drop (length body - 3) body = ustr ''png''" "10 \<notin> set r"
    and n: "name = take (length body - 38) r"
    using h unfolding icon_name_def body_def[symmetric] r_def[symmetric] Let_def
    by (auto split: if_splits)
  have lr: "length r = length body - 34" by (simp add: r_def)
  have r4: "4 \<le> length r" using c(1) lr by simp
  define t where "t = drop (length body - 38) r"
  have rt: "r = name @ t" by (simp add: n t_def)
  have lt: "length t = 4" using c(1) lr by (simp add: t_def)
  have ar: "1 + (length body - 38 + 34) = length body - 3" using c(1) by arith
  have "drop 1 t = drop (1 + (length body - 38 + 34)) body"
    by (simp only: t_def r_def drop_drop)
  then have "drop 1 t = drop (length body - 3) body"
    by (simp only: ar)
  then have d1: "drop 1 t = ustr ''png''" using c(3) by simp
  obtain c0 t' where t: "t = c0 # t'" using lt by (cases t) auto
  then have "t' = ustr ''png''" using d1 by simp
  then have tt: "t = c0 # ustr ''png''" using t by simp
  have "body = take 34 body @ r" by (simp add: r_def)
  then have b: "body = kijkwijzer_dir @ name @ c0 # ustr ''png''" using c(2) rt tt by simp
  have "10 \<notin> set name" "c0 \<noteq> 10" using c(4) rt tt by auto
  then show "\<exists>c e. p = kijkwijzer_dir @ name @ c # ustr ''png'' @ e
        \<and> 10 \<notin> set name \<and> c \<noteq> 10 \<and> (e = [] \<or> e = [10])"
    using pe b by (intro exI[of _ c0] exI[of _ e]) (auto simp: e_def)
next
  assume "\<exists>c e. p = kijkwijzer_dir @ name @ c # ustr ''png'' @ e
        \<and> 10 \<notin> set name \<and> c \<noteq> 10 \<and> (e = [] \<or> e = [10])"
  then obtain c e where p: "p = kijkwijzer_dir @ name @ c # ustr ''png'' @ e"
    and n: "10 \<notin> set name" and c: "c \<noteq> 10" and e: "e = [] \<or> e = [10]" by blast
  define body where "body = kijkwijzer_dir @ name @ c # ustr ''png''"
  have len: "length kijkwijzer_dir = 34" by (simp add: kijkwijzer_dir_def ustr_def)
  have pb: "(if p \<noteq> [] \<and> last p = 10 then butlast p else p) = body"
    using e unfolding p body_def by (auto simp: ustr_def butlast_append)
  have l: "length body = 38 + length name" by (simp add: body_def len ustr_def)
  have t34: "take 34 body = kijkwijzer_dir" and d34: "drop 34 body = name @ c # ustr ''png''"
    by (simp_all add: body_def len)
  have d3: "drop (length body - 3) body = ustr ''png''"
    unfolding l by (simp add: body_def len ustr_def)
  have nm: "\<not> List.member (drop 34 body) 10"
    using n c by (simp add: d34 ustr_def)
  show "icon_name p = Some name"
    unfolding icon_name_def pb Let_def using t34 d3 nm l by (simp add: d34)
qed

lemma restriction_match_icon_name:
  "re_match restriction_re p = map_option (\<lambda>name. [name]) (icon_name p)"
proof (cases "icon_name p")
  case None
  have "re_match restriction_re p = None"
  proof (cases "re_match restriction_re p")
    case (Some gs)
    from restriction_match_sound[OF Some] obtain name c e
      where sh: "p = kijkwijzer_dir @ name @ c # ustr ''png'' @ e
           \<and> 10 \<notin> set name \<and> c \<noteq> 10 \<and> (e = [] \<or> e = [10])"
      by blast
    have "icon_name p = Some name"
      by (rule icon_name_shape[THEN iffD2], rule exI[of _ c], rule exI[of _ e], rule sh)
    then show ?thesis using None by simp
  qed simp
  then show ?thesis using None by simp
next
  case (Some name)
  from icon_name_shape[THEN iffD1, OF Some] obtain c e
    where p: "p = kijkwijzer_dir @ name @ c # ustr ''png'' @ e"
      and n: "10 \<notin> set name" and c: "c \<noteq> 10" and e: "e = [] \<or> e = [10]"
    by blast
  have "re_match restriction_re p = Some [name]"
    unfolding p by (rule restriction_match_complete[OF n c e])
  then show ?thesis using Some by simp
qed

lemma restrictions_loop_tags:
  "restrictions_loop ps acc =
     (if list_ex (\<lambda>p. icon_tag p = Unrecognised) ps
      then Inl (PatheMovieParseError ''Unexpected restriction name'')
      else Inr (acc @ concat (map (\<lambda>p. tags_of (icon_tag p)) ps)))"
proof (induction ps arbitrary: acc)
  case Nil
  then show ?case by simp
next
  case (Cons p ps)
  show ?case
  proof (cases "icon_name p")
    case None
    then show ?thesis
      by (simp add: restriction_match_icon_name Cons.IH icon_tag_def)
  next
    case (Some name)
    then show ?thesis
      using kijkwijzer_tag_exists[of name]
      by (simp add: restriction_match_icon_name Cons.IH icon_tag_def)
  qed
qed

text \<open>
  Claim C8, amended.  An icon path has a name when it is the directory
  \<open>/themes/main/gfx/icons/kijkwijzer/\<close>, the name, one more character and \<open>png\<close>
  (possibly followed by one final newline, with no newline before that).  The path
  \<open>/themes/main/gfx/icons/kijkwijzer/kijkwijzer-12.png\<close> stands for the tag \<open>12\<close> and
  \<open>/themes/main/gfx/icons/kijkwijzer/rating-onbekend-z.png\<close> for the tag \<open>unknown\<close>.
  For the icons of a page, in any number and order: when one of them has a name that
  is neither \<open>rating-onbekend-z\<close> nor \<open>rating-nvt-z\<close> and does not contain \<open>kijkwijzer-\<close>,
  \<open>get_movie_restrictions\<close> raises \<open>PatheMovieParseError\<close>; otherwise it returns the tags
  of the icons that have a name, in their order, and passes over every icon path of
  another shape.
\<close>

theorem get_movie_restrictions_icon_paths:
  "get_movie_restrictions d =
     (if list_ex (\<lambda>p. icon_tag p = Unrecognised) (xp_kijkwijzer_src d)
      then Inl (PatheMovieParseError ''Unexpected restriction name'')
      else Inr (concat (map (\<lambda>p. tags_of (icon_tag p)) (xp_kijkwijzer_src d))))
   \<and> icon_tag (kijkwijzer_dir @ ustr ''kijkwijzer-12.png'') = Tag (ustr ''12'')
   \<and> icon_tag (kijkwijzer_dir @ ustr ''rating-onbekend-z.png'') = Tag (ustr ''unknown'')
   \<and> (icon_tag p = Unrecognised \<longleftrightarrow>
        (\<exists>name c e. p = kijkwijzer_dir @ name @ c # ustr ''png'' @ e
           \<and> 10 \<notin> set name \<and> c \<noteq> 10 \<and> (e = [] \<or> e = [10])
           \<and> name \<noteq> ustr ''rating-onbekend-z'' \<and> name \<noteq> ustr ''rating-nvt-z''
           \<and> \<not> py_contains (ustr ''kijkwijzer-'') name))
   \<and> (icon_tag p = Foreign \<longleftrightarrow>
        (\<nexists>name c e. p = kijkwijzer_dir @ name @ c # ustr ''png'' @ e
           \<and> 10 \<notin> set name \<and> c \<noteq> 10 \<and> (e = [] \<or> e = [10])))"
proof (intro conjI)
  show "get_movie_restrictions d =
     (if list_ex (\<lambda>p. icon_tag p = Unrecognised) (xp_kijkwijzer_src d)
      then Inl (PatheMovieParseError ''Unexpected restriction name'')
      else Inr (concat (map (\<lambda>p. tags_of (icon_tag p)) (xp_kijkwijzer_src d))))"
    by (simp add: get_movie_restrictions_def restrictions_loop_tags)
next
  have "icon_name (kijkwijzer_dir @ ustr ''kijkwijzer-12'' @ 46 # ustr ''png'' @ [])
        = Some (ustr ''kijkwijzer-12'')"
    unfolding icon_name_shape by (intro exI[of _ 46] exI[of _ "[]"]) (simp add: ustr_def)
  moreover have "kijkwijzer_dir @ ustr ''kijkwijzer-12'' @ 46 # ustr ''png'' @ []
        = kijkwijzer_dir @ ustr ''kijkwijzer-12.png''"
    by (simp add: ustr_def)
  ultimately have "icon_name (kijkwijzer_dir @ ustr ''kijkwijzer-12.png'')
        = Some (ustr ''kijkwijzer-12'')" by simp
  then show "icon_tag (kijkwijzer_dir @ ustr ''kijkwijzer-12.png'') = Tag (ustr ''12'')"
    by (simp add: icon_tag_def) (simp add: ustr_def py_split_def)
next
  have "icon_name (kijkwijzer_dir @ ustr ''rating-onbekend-z'' @ 46 # ustr ''png'' @ [])
        = Some (ustr ''rating-onbekend-z'')"
    unfolding icon_name_shape by (intro exI[of _ 46] exI[of _ "[]"]) (simp add: ustr_def)
  moreover have "kijkwijzer_dir @ ustr ''rating-onbekend-z'' @ 46 # ustr ''png'' @ []
        = kijkwijzer_dir @ ustr ''rating-onbekend-z.png''"
    by (simp add: ustr_def)
  ultimately have "icon_name (kijkwijzer_dir @ ustr ''rating-onbekend-z.png'')
        = Some (ustr ''rating-onbekend-z'')" by simp
  then show "icon_tag (kijkwijzer_dir @ ustr ''rating-onbekend-z.png'') = Tag (ustr ''unknown'')"
    by (simp add: icon_tag_def)
next
  have "icon_tag p = Unrecognised \<longleftrightarrow>
        (\<exists>name. icon_name p = Some name
           \<and> name \<noteq> ustr ''rating-onbekend-z'' \<and> name \<noteq> ustr ''rating-nvt-z''
           \<and> \<not> py_contains (ustr ''kijkwijzer-'') name)"
    by (auto simp: icon_tag_def split: option.splits)
  then show "icon_tag p = Unrecognised \<longleftrightarrow>
        (\<exists>name c e. p = kijkwijzer_dir @ name @ c # ustr ''png'' @ e
           \<and> 10 \<notin> set name \<and> c \<noteq> 10 \<and> (e = [] \<or> e = [10])
           \<and> name \<noteq> ustr ''rating-onbekend-z'' \<and> name \<noteq> ustr ''rating-nvt-z''
           \<and> \<not> py_contains (ustr ''kijkwijzer-'') name)"
    unfolding icon_name_shape by blast
next
  have "icon_tag p = Foreign \<longleftrightarrow> (\<nexists>name. icon_name p = Some name)"
    by (auto simp: icon_tag_def split: option.splits)
  then show "icon_tag p = Foreign \<longleftrightarrow>
        (\<nexists>name c e. p = kijkwijzer_dir @ name @ c # ustr ''png'' @ e
           \<and> 10 \<notin> set name \<and> c \<noteq> 10 \<and> (e = [] \<or> e = [10]))"
    unfolding icon_name_shape by blast
qed

lemmas icon_simps =
  icon_tag_def icon_name_def kijkwijzer_dir_def ustr_def py_split_def

theorem get_movie_restrictions_witness:
  "get_movie_restrictions
     (absent_doc\<lparr>xp_kijkwijzer_src :=
        [kijkwijzer_dir @ ustr ''kijkwijzer-12.png'', kijkwijzer_dir @ ustr ''leeftijd-12.png'']\<rparr>)
     = Inl (PatheMovieParseError ''Unexpected restriction name'')
   \<and> get_movie_restrictions
     (absent_doc\<lparr>xp_kijkwijzer_src :=
        [kijkwijzer_dir @ ustr ''kijkwijzer-12.png'', ustr ''/img/logo.png'',
         kijkwijzer_dir @ ustr ''kijkwijzer-geweld.png'']\<rparr>)
     = Inr [ustr ''12'', ustr ''geweld'']"
proof -
  have a: "icon_tag (kijkwijzer_dir @ ustr ''kijkwijzer-12.png'') = Tag (ustr ''12'')"
    by (simp add: icon_simps)
  have b: "icon_tag (kijkwijzer_dir @ ustr ''leeftijd-12.png'') = Unrecognised"
    by (simp add: icon_simps)
  have c: "icon_tag (ustr ''/img/logo.png'') = Foreign"
    by (simp add: icon_simps)
  have d: "icon_tag (kijkwijzer_dir @ ustr ''kijkwijzer-geweld.png'') = Tag (ustr ''geweld'')"
    by (simp add: icon_simps)
  have x: "get_movie_restrictions
     (absent_doc\<lparr>xp_kijkwijzer_src :=
        [kijkwijzer_dir @ ustr ''kijkwijzer-12.png'', kijkwijzer_dir @ ustr ''leeftijd-12.png'']\<rparr>)
     = Inl (PatheMovieParseError ''Unexpected restriction name'')"
    using get_movie_restrictions_icon_paths
            [THEN conjunct1, of "absent_doc\<lparr>xp_kijkwijzer_src :=
               [kijkwijzer_dir @ ustr ''kijkwijzer-12.png'',
                kijkwijzer_dir @ ustr ''leeftijd-12.png'']\<rparr>"]
    by (simp add: a b)
  have y: "get_movie_restrictions
     (absent_doc\<lparr>xp_kijkwijzer_src :=
        [kijkwijzer_dir @ ustr ''kijkwijzer-12.png'', ustr ''/img/logo.png'',
         kijkwijzer_dir @ ustr ''kijkwijzer-geweld.png'']\<rparr>)
     = Inr [ustr ''12'', ustr ''geweld'']"
    using get_movie_restrictions_icon_paths
            [THEN conjunct1, of "absent_doc\<lparr>xp_kijkwijzer_src :=
               [kijkwijzer_dir @ ustr ''kijkwijzer-12.png'', ustr ''/img/logo.png'',
                kijkwijzer_dir @ ustr ''kijkwijzer-geweld.png'']\<rparr>"]
    by (simp add: a b c d)
  show ?thesis using x y by (rule conjI)
qed

section \<open>Rating resolution: the arguments\<close>

lemmas demo_simps =
  demo_env_def demo_doc_def absent_doc_def ustr_def get_imdb_id_by_title_def
  do_imdb_request_def get_movie_imdb_rating_def nl_to_en_def re_match_def imdb_link_re_def
  lits_def py_int_def py_strip_def py_isspace_def py_decimal_def decimal_runs_def
  str_of_int_def

lemma demo_rating_by_title:
  "get_movie_imdb_rating demo_env \<lparr>kw_title = Some (ustr ''Am'' @ [233] @ ustr ''lie''), kw_id = i\<rparr>
     = Inr (7, Some (Finite (81 / 10)))"
  "get_movie_imdb_rating demo_env \<lparr>kw_title = Some (ustr ''Heat''), kw_id = i\<rparr>
     = Inr (5, Some (Finite 8))"
  "get_movie_imdb_rating demo_env \<lparr>kw_title = Some (ustr ''Solaris''), kw_id = i\<rparr>
     = Inr (9, None)"
  by (simp_all add: demo_simps)

text \<open>
  Claim C9, as stated, fails: with both a title and an id the call is not rejected.  The
  title is searched for and the id 5 that was passed is ignored.
\<close>

theorem get_movie_imdb_rating_accepts_title_and_id:
  "get_movie_imdb_rating demo_env
     \<lparr>kw_title = Some (ustr ''Am'' @ [233] @ ustr ''lie''), kw_id = Some 5\<rparr>
   = Inr (7, Some (Finite (81 / 10)))"
  by (rule demo_rating_by_title)

text \<open>
  Claim C9, amended.  \<open>get_movie_imdb_rating\<close> with neither a title nor an id raises the
  \<open>RuntimeError\<close> that asks for one of them; with a title it does what it does for that
  title alone, whether or not an id is passed with it.
\<close>

theorem get_movie_imdb_rating_arguments:
  "(kw_title kw = None \<and> kw_id kw = None \<longrightarrow>
      get_movie_imdb_rating env kw
      = Inl (RuntimeError ''Either title or ID must be provided as a search term''))
   \<and> (kw_title kw \<noteq> None \<longrightarrow>
      get_movie_imdb_rating env kw = get_movie_imdb_rating env (kw\<lparr>kw_id := None\<rparr>))"
  by (auto simp: get_movie_imdb_rating_def)

theorem get_movie_imdb_rating_witness:
  "get_movie_imdb_rating unreachable_env \<lparr>kw_title = None, kw_id = None\<rparr>
     = Inl (RuntimeError ''Either title or ID must be provided as a search term'')
   \<and> get_movie_imdb_rating demo_env \<lparr>kw_title = Some (ustr ''Heat''), kw_id = Some 7\<rparr>
     = get_movie_imdb_rating demo_env \<lparr>kw_title = Some (ustr ''Heat''), kw_id = None\<rparr>"
  using get_movie_imdb_rating_arguments[of "\<lparr>kw_title = None, kw_id = None\<rparr>" unreachable_env]
        get_movie_imdb_rating_arguments
          [of "\<lparr>kw_title = Some (ustr ''Heat''), kw_id = Some 7\<rparr>" demo_env]
  by simp

section \<open>Steps of the threads\<close>

lemma main_step_movie_threads:
  "main_step n s = Some s' \<Longrightarrow> movie_threads s' = movie_threads s"
  by (auto simp: main_step_def simp del: str_of_nat.simps split: pc.splits if_splits)

lemma page_step_movie_threads:
  "page_step env j s = Some s' \<Longrightarrow> movie_threads s' = movie_threads s"
  by (auto simp: page_step_def split: thread.splits list.splits event.splits if_splits)

lemma movie_step_other:
  "movie_step env j s = Some s' \<Longrightarrow> j \<noteq> i \<Longrightarrow>
   movie_threads s' ! i = movie_threads s ! i \<and> length (movie_threads s') = length (movie_threads s)"
  by (auto simp: movie_step_def split: thread.splits list.splits event.splits if_splits)

lemma step_other_thread:
  assumes "step env n t s = Some s'" "t \<noteq> MovieThread i"
  shows "movie_threads s' ! i = movie_threads s ! i
         \<and> length (movie_threads s') = length (movie_threads s)"
proof (cases t)
  case Main
  then show ?thesis using assms main_step_movie_threads by simp
next
  case (PageThread j)
  then show ?thesis using assms page_step_movie_threads by simp
next
  case (MovieThread j)
  then show ?thesis using assms movie_step_other by simp
qed

lemma movie_step_get:
  assumes "i < length (movie_threads s)" "movie_threads s ! i = Idle"
    "movies_queue s = Some url # q" "url \<noteq> []"
  shows "movie_step env i s =
           Some (s\<lparr>movies_queue := q,
                   movie_threads := (movie_threads s)[i := Busy url (process_movie_item env url)]\<rparr>)"
  using assms by (simp add: movie_step_def)

lemma movie_step_event:
  assumes "i < length (movie_threads s)" "movie_threads s ! i = Busy url (ev # evs)"
  shows "\<exists>s'. movie_step env i s = Some s'
           \<and> length (movie_threads s') = length (movie_threads s)
           \<and> result_list s' = result_list s @ (case ev of Append r \<Rightarrow> [r] | _ \<Rightarrow> [])
           \<and> movie_threads s' ! i =
               (case ev of
                  TaskDone \<Rightarrow> if movies_unfinished s = 0 then Died url ValueError else Idle
                | Raise e \<Rightarrow> Died url e
                | _ \<Rightarrow> Busy url evs)"
  using assms by (cases ev) (simp_all add: movie_step_def)

lemma movie_step_stuck:
  "i < length (movie_threads s) \<Longrightarrow> movie_threads s ! i = Busy url [] \<Longrightarrow>
   movie_step env i s = None"
  by (simp add: movie_step_def)

lemma appended_in_turn_busy:
  assumes "i < length (movie_threads s)" "movie_threads s ! i = Busy url evs"
    "run env n sched s = Some s'" "\<not> busy (movie_threads s' ! i)"
  shows "appended_in_turn env n i sched s = appended (until_end evs)"
  using assms
proof (induction sched arbitrary: s evs)
  case Nil
  then show ?case by simp
next
  case (Cons t ts)
  from Cons.prems(3) obtain s1 where s1: "step env n t s = Some s1" and r: "run env n ts s1 = Some s'"
    by (auto split: option.splits)
  show ?case
  proof (cases "t = MovieThread i")
    case False
    then have same: "movie_threads s1 ! i = Busy url evs" "i < length (movie_threads s1)"
      using step_other_thread[OF s1 False] Cons.prems(1,2) by simp_all
    have "appended_in_turn env n i ts s1 = appended (until_end evs)"
      using Cons.IH[OF same(2) same(1) r Cons.prems(4)] .
    then show ?thesis using s1 False same(1) by simp
  next
    case True
    then have ms: "movie_step env i s = Some s1" using s1 by simp
    show ?thesis
    proof (cases evs)
      case Nil
      then show ?thesis using movie_step_stuck[OF Cons.prems(1)] Cons.prems(2) ms by simp
    next
      case (Cons ev evs')
      from movie_step_event[OF Cons.prems(1), of url ev evs' env] Cons.prems(2) Cons ms
      have len: "length (movie_threads s1) = length (movie_threads s)"
        and rl: "result_list s1 = result_list s @ (case ev of Append r \<Rightarrow> [r] | _ \<Rightarrow> [])"
        and th: "movie_threads s1 ! i =
               (case ev of
                  TaskDone \<Rightarrow> if movies_unfinished s = 0 then Died url ValueError else Idle
                | Raise e \<Rightarrow> Died url e
                | _ \<Rightarrow> Busy url evs')"
        by auto
      have i1: "i < length (movie_threads s1)" using len Cons.prems(1) by simp
      have head: "appended_in_turn env n i (t # ts) s =
                    (case ev of Append r \<Rightarrow> [r] | _ \<Rightarrow> [])
                    @ (if busy (movie_threads s1 ! i) then appended_in_turn env n i ts s1 else [])"
        using s1 True rl by simp
      show ?thesis
      proof (cases "busy (movie_threads s1 ! i)")
        case False
        then have "ev = TaskDone \<or> (\<exists>e. ev = Raise e)" using th by (cases ev) auto
        then show ?thesis using head False Cons by auto
      next
        case b: True
        then have th': "movie_threads s1 ! i = Busy url evs'" and ne: "ev \<noteq> TaskDone" "\<And>e. ev \<noteq> Raise e"
          using th by (cases ev; auto split: if_splits)+
        have "appended_in_turn env n i ts s1 = appended (until_end evs')"
          using Cons.IH[OF i1 th' r Cons.prems(4)] .
        then show ?thesis using head b Cons ne by (cases ev) auto
      qed
    qed
  qed
qed

lemma step_result_list_grows:
  "step env n t s = Some s' \<Longrightarrow> \<exists>xs. result_list s' = result_list s @ xs"
proof (cases t)
  case Main
  assume "step env n t s = Some s'"
  then have "result_list s' = result_list s" using Main
    by (auto simp: main_step_def simp del: str_of_nat.simps split: pc.splits if_splits)
  then show ?thesis by simp
next
  case (PageThread j)
  assume "step env n t s = Some s'"
  then show ?thesis using PageThread
    by (auto simp: page_step_def split: thread.splits list.splits event.splits if_splits)
next
  case (MovieThread j)
  assume "step env n t s = Some s'"
  then show ?thesis using MovieThread
    by (auto simp: movie_step_def split: thread.splits list.splits event.splits if_splits)
qed

lemma run_result_list_grows:
  "run env n sched s = Some s' \<Longrightarrow> \<exists>xs. result_list s' = result_list s @ xs"
proof (induction sched arbitrary: s)
  case Nil
  then show ?case by simp
next
  case (Cons t ts)
  then obtain s1 where s1: "step env n t s = Some s1" and r: "run env n ts s1 = Some s'"
    by (auto split: option.splits)
  from step_result_list_grows[OF s1] Cons.IH[OF r] show ?case by auto
qed

lemma appended_in_turn_in_result_list:
  "run env n sched s = Some s' \<Longrightarrow>
   set (appended_in_turn env n i sched s) \<subseteq> set (result_list s')"
proof (induction sched arbitrary: s)
  case Nil
  then show ?case by simp
next
  case (Cons t ts)
  then obtain s1 where s1: "step env n t s = Some s1" and r: "run env n ts s1 = Some s'"
    by (auto split: option.splits)
  obtain xs where xs: "result_list s' = result_list s1 @ xs"
    using run_result_list_grows[OF r] by blast
  have a: "set (drop (length (result_list s)) (result_list s1)) \<subseteq> set (result_list s')"
    using set_drop_subset[of "length (result_list s)" "result_list s1"] xs by auto
  have b: "set (appended_in_turn env n i ts s1) \<subseteq> set (result_list s')"
    using Cons.IH[OF r] .
  show ?case using s1 a b by auto
qed

lemma appended_in_turn_from_get:
  assumes "i < length (movie_threads s)" "movie_threads s ! i = Idle"
    "movies_queue s = Some url # q" "url \<noteq> []"
    "run env n (MovieThread i # sched) s = Some s'" "\<not> busy (movie_threads s' ! i)"
  shows "appended_in_turn env n i (MovieThread i # sched) s
         = appended (until_end (process_movie_item env url))"
proof -
  let ?s1 = "s\<lparr>movies_queue := q,
               movie_threads := (movie_threads s)[i := Busy url (process_movie_item env url)]\<rparr>"
  have g: "movie_step env i s = Some ?s1"
    using movie_step_get[OF assms(1-4)] .
  then have r: "run env n sched ?s1 = Some s'" using assms(5) by simp
  have i1: "i < length (movie_threads ?s1)" using assms(1) by simp
  have b: "movie_threads ?s1 ! i = Busy url (process_movie_item env url)"
    using assms(1) by simp
  have "appended_in_turn env n i sched ?s1 = appended (until_end (process_movie_item env url))"
    using appended_in_turn_busy[OF i1 b r assms(6)] .
  moreover have "appended_in_turn env n i (MovieThread i # sched) s
                 = appended_in_turn env n i sched ?s1"
    using g b by simp
  ultimately show ?thesis by simp
qed

section \<open>The detail worker\<close>

lemma float_gt_truthy: "float_gt_int r 8 \<Longrightarrow> float_truthy r"
  by (cases r) auto

lemma appended_process_movie_item:
  "appended (process_movie_item env url) =
     (case re_match movie_url_re url of
        None \<Rightarrow> []
      | Some groups \<Rightarrow>
     (case requests_get env url of
        Inl e \<Rightarrow> []
      | Inr movie \<Rightarrow>
     (case lh_fromstring env movie of
        Inl e \<Rightarrow> []
      | Inr doc \<Rightarrow>
     (case get_movie_special doc of
        Inl e \<Rightarrow> []
      | Inr special \<Rightarrow>
     if special_in_skip special then []
     else (case get_movie_imdb_rating env \<lparr>kw_title = Some (get_movie_title doc), kw_id = None\<rparr> of
             Inl e \<Rightarrow> []
           | Inr (imdb_id, None) \<Rightarrow> []
           | Inr (imdb_id, Some r) \<Rightarrow>
               if float_gt_int r 8 then [(url, imdb_url imdb_id)] else [])))))"
  using float_gt_truthy
  by (auto simp: process_movie_item_def Let_def split: option.splits sum.splits prod.splits)

lemma appended_iff_rating_above_8:
  "(appended (process_movie_item env url) = [r] \<longleftrightarrow>
      (\<exists>groups movie doc special imdb_id rating.
         re_match movie_url_re url = Some groups
         \<and> requests_get env url = Inr movie
         \<and> lh_fromstring env movie = Inr doc
         \<and> get_movie_special doc = Inr special \<and> \<not> special_in_skip special
         \<and> get_movie_imdb_rating env \<lparr>kw_title = Some (get_movie_title doc), kw_id = None\<rparr>
             = Inr (imdb_id, Some rating)
         \<and> float_gt_int rating 8
         \<and> r = (url, imdb_url imdb_id)))
   \<and> (appended (process_movie_item env url) = []
        \<or> (\<exists>r'. appended (process_movie_item env url) = [r']))"
  unfolding appended_process_movie_item
  by (auto split: option.splits sum.splits prod.splits)

lemmas page_simps =
  demo_simps movie_url_re_def get_movie_special_def special_in_skip_def SKIP_SPECIAL_def
  py_split_ws_def py_split_def py_nth_def title_xpath_def

lemma demo_movie_url:
  "re_match movie_url_re (ustr ''http://www.pathe.nl/film/1/amelie'') = Some [ustr ''1'', ustr ''amelie'']"
  "re_match movie_url_re (ustr ''http://www.pathe.nl/film/2/tosca'') = Some [ustr ''2'', ustr ''tosca'']"
  "re_match movie_url_re (ustr ''http://www.pathe.nl/film/3/heat'') = Some [ustr ''3'', ustr ''heat'']"
  "re_match movie_url_re (ustr ''http://www.pathe.nl/film/4/solaris'') = Some [ustr ''4'', ustr ''solaris'']"
  by (simp_all add: page_simps)

lemma demo_pages:
  "requests_get demo_env url = Inr url" "lh_fromstring demo_env text = Inr (demo_doc text)"
  by (simp_all add: demo_env_def)

lemma demo_specials:
  "get_movie_special (demo_doc (ustr ''http://www.pathe.nl/film/1/amelie'')) = Inr None"
  "get_movie_special (demo_doc (ustr ''http://www.pathe.nl/film/2/tosca''))
     = Inr (Some (ustr ''Path'' @ [233] @ ustr ''Opera''))"
  "get_movie_special (demo_doc (ustr ''http://www.pathe.nl/film/3/heat'')) = Inr None"
  "get_movie_special (demo_doc (ustr ''http://www.pathe.nl/film/4/solaris'')) = Inr None"
  by (simp_all add: page_simps)

lemma demo_titles:
  "get_movie_title (demo_doc (ustr ''http://www.pathe.nl/film/1/amelie''))
     = ustr ''Am'' @ [233] @ ustr ''lie''"
  "get_movie_title (demo_doc (ustr ''http://www.pathe.nl/film/3/heat'')) = ustr ''Heat''"
  "get_movie_title (demo_doc (ustr ''http://www.pathe.nl/film/4/solaris'')) = ustr ''Solaris''"
  by (simp_all add: get_movie_title_def title_re_def page_simps)

lemma demo_resolution:
  assumes "requests_get demo_env url = Inr movie" "lh_fromstring demo_env movie = Inr doc"
  shows "doc = demo_doc url"
  using assms by (simp add: demo_pages)

lemma demo_appended:
  "appended (process_movie_item demo_env (ustr ''http://www.pathe.nl/film/1/amelie''))
     = [(ustr ''http://www.pathe.nl/film/1/amelie'', ustr ''http://imdb.com/title/tt7'')]
   \<and> appended (process_movie_item demo_env (ustr ''http://www.pathe.nl/film/3/heat'')) = []
   \<and> appended (process_movie_item demo_env (ustr ''http://www.pathe.nl/film/4/solaris'')) = []"
proof (intro conjI)
  let ?u = "ustr ''http://www.pathe.nl/film/1/amelie''"
  have url7: "imdb_url 7 = ustr ''http://imdb.com/title/tt7''"
    by (simp add: imdb_url_def str_of_int_def ustr_def)
  have t: "get_movie_title (demo_doc ?u) = ustr ''Am'' @ [233] @ ustr ''lie''"
    by (rule demo_titles(1))
  have g: "get_movie_imdb_rating demo_env
              \<lparr>kw_title = Some (get_movie_title (demo_doc ?u)), kw_id = None\<rparr>
             = Inr (7, Some (Finite (81 / 10)))"
    unfolding t by (rule demo_rating_by_title(1))
  have s: "\<not> special_in_skip None" by (simp add: special_in_skip_def)
  have f: "float_gt_int (Finite (81 / 10)) 8" by simp
  have "re_match movie_url_re ?u = Some [ustr ''1'', ustr ''amelie'']
         \<and> requests_get demo_env ?u = Inr ?u
         \<and> lh_fromstring demo_env ?u = Inr (demo_doc ?u)
         \<and> get_movie_special (demo_doc ?u) = Inr None \<and> \<not> special_in_skip None
         \<and> get_movie_imdb_rating demo_env
              \<lparr>kw_title = Some (get_movie_title (demo_doc ?u)), kw_id = None\<rparr>
             = Inr (7, Some (Finite (81 / 10)))
         \<and> float_gt_int (Finite (81 / 10)) 8
         \<and> (?u, ustr ''http://imdb.com/title/tt7'') = (?u, imdb_url 7)"
    using demo_movie_url(1) demo_pages(1)[of ?u] demo_pages(2)[of ?u] demo_specials(1) g s f url7
    by (intro conjI; (assumption | simp only: url7))
  then have
    "\<exists>groups movie doc special imdb_id rating.
         re_match movie_url_re ?u = Some groups
         \<and> requests_get demo_env ?u = Inr movie
         \<and> lh_fromstring demo_env movie = Inr doc
         \<and> get_movie_special doc = Inr special \<and> \<not> special_in_skip special
         \<and> get_movie_imdb_rating demo_env \<lparr>kw_title = Some (get_movie_title doc), kw_id = None\<rparr>
             = Inr (imdb_id, Some rating)
         \<and> float_gt_int rating 8
         \<and> (?u, ustr ''http://imdb.com/title/tt7'') = (?u, imdb_url imdb_id)"
    by (intro exI)
  then show "appended (process_movie_item demo_env ?u) = [(?u, ustr ''http://imdb.com/title/tt7'')]"
    using appended_iff_rating_above_8
            [of demo_env ?u "(?u, ustr ''http://imdb.com/title/tt7'')"]
    by (simp only:)
next
  let ?u = "ustr ''http://www.pathe.nl/film/3/heat''"
  have no: "appended (process_movie_item demo_env ?u) \<noteq> [r]" for r
  proof
    assume "appended (process_movie_item demo_env ?u) = [r]"
    then obtain movie doc imdb_id rating where
      m: "requests_get demo_env ?u = Inr movie" and d: "lh_fromstring demo_env movie = Inr doc"
      and g: "get_movie_imdb_rating demo_env \<lparr>kw_title = Some (get_movie_title doc), kw_id = None\<rparr>
             = Inr (imdb_id, Some rating)"
      and f: "float_gt_int rating 8"
      using appended_iff_rating_above_8[of demo_env ?u r] by blast
    have "doc = demo_doc ?u" using m d by (rule demo_resolution)
    then have "rating = Finite 8"
      using g by (simp add: demo_titles(2) demo_rating_by_title(2))
    then show False using f by simp
  qed
  show "appended (process_movie_item demo_env ?u) = []"
    using appended_iff_rating_above_8[of demo_env ?u] no by blast
next
  let ?u = "ustr ''http://www.pathe.nl/film/4/solaris''"
  have no: "appended (process_movie_item demo_env ?u) \<noteq> [r]" for r
  proof
    assume "appended (process_movie_item demo_env ?u) = [r]"
    then obtain movie doc imdb_id rating where
      m: "requests_get demo_env ?u = Inr movie" and d: "lh_fromstring demo_env movie = Inr doc"
      and g: "get_movie_imdb_rating demo_env \<lparr>kw_title = Some (get_movie_title doc), kw_id = None\<rparr>
             = Inr (imdb_id, Some rating)"
      using appended_iff_rating_above_8[of demo_env ?u r] by blast
    have "doc = demo_doc ?u" using m d by (rule demo_resolution)
    then show False
      using g by (simp add: demo_titles(3) demo_rating_by_title(3))
  qed
  show "appended (process_movie_item demo_env ?u) = []"
    using appended_iff_rating_above_8[of demo_env ?u] no by blast
qed

lemma until_end_process_movie_item:
  "appended (until_end (process_movie_item env url)) = appended (process_movie_item env url)"
  by (auto simp: process_movie_item_def Let_def split: option.splits sum.splits prod.splits)

text \<open>
  Claim C1.  Let the detail worker \<open>i\<close> be at its \<open>get\<close> with the address \<open>url\<close> first on
  \<open>movies_queue\<close>, and let a schedule start with its step and run, with steps of any
  other threads in between, until the worker is out of that turn.  Then what the
  worker has added to the shared \<open>result_list\<close> in the turn is at most one pair; it is
  the pair \<open>r\<close> exactly when the page was fetched and parsed, its special status is not
  in the skip list, the rating resolution for its title returned an id with a
  rating, that rating is greater than 8, and \<open>r\<close> is the address with the address of
  that id in the film database; and what it has added is in \<open>result_list\<close> at the end
  of the schedule.  Nothing is added when the resolution returns no rating or is told
  that the film is not found.
\<close>

theorem process_movie_appends_iff_rating_above_8:
  assumes "i < length (movie_threads s)" and "movie_threads s ! i = Idle"
    and "movies_queue s = Some url # q" and "url \<noteq> []"
    and "run env n (MovieThread i # sched) s = Some s'"
    and "\<not> busy (movie_threads s' ! i)"
  shows "(appended_in_turn env n i (MovieThread i # sched) s = [r] \<longleftrightarrow>
            (\<exists>groups movie doc special imdb_id rating.
               re_match movie_url_re url = Some groups
               \<and> requests_get env url = Inr movie
               \<and> lh_fromstring env movie = Inr doc
               \<and> get_movie_special doc = Inr special \<and> \<not> special_in_skip special
               \<and> get_movie_imdb_rating env
                    \<lparr>kw_title = Some (get_movie_title doc), kw_id = None\<rparr>
                   = Inr (imdb_id, Some rating)
               \<and> float_gt_int rating 8
               \<and> r = (url, imdb_url imdb_id)))
         \<and> (appended_in_turn env n i (MovieThread i # sched) s = []
              \<or> (\<exists>r'. appended_in_turn env n i (MovieThread i # sched) s = [r']))
         \<and> set (appended_in_turn env n i (MovieThread i # sched) s) \<subseteq> set (result_list s')"
proof -
  have eq: "appended_in_turn env n i (MovieThread i # sched) s
            = appended (process_movie_item env url)"
    using appended_in_turn_from_get[OF assms] until_end_process_movie_item by simp
  show ?thesis
    unfolding eq
    using appended_iff_rating_above_8[of env url r]
      appended_in_turn_in_result_list[OF assms(5), of i]
    unfolding eq by blast
qed

lemma demo_turns:
  "process_movie_item demo_env (ustr ''http://www.pathe.nl/film/1/amelie'')
     = [Call ''get_movie_special'', Call ''get_movie_title'', Call ''get_movie_imdb_rating'',
        Print (ustr ''http://www.pathe.nl/film/1/amelie'') (ustr ''http://imdb.com/title/tt7''),
        Append (ustr ''http://www.pathe.nl/film/1/amelie'', ustr ''http://imdb.com/title/tt7''),
        TaskDone]"
  "process_movie_item demo_env (ustr ''http://www.pathe.nl/film/3/heat'')
     = [Call ''get_movie_special'', Call ''get_movie_title'', Call ''get_movie_imdb_rating'',
        TaskDone]"
proof -
  have t: "get_movie_imdb_rating demo_env
             \<lparr>kw_title = Some (get_movie_title
                 (demo_doc (ustr ''http://www.pathe.nl/film/1/amelie''))), kw_id = None\<rparr>
           = Inr (7, Some (Finite (81 / 10)))"
    unfolding demo_titles(1) by (rule demo_rating_by_title(1))
  have h: "get_movie_imdb_rating demo_env
             \<lparr>kw_title = Some (get_movie_title
                 (demo_doc (ustr ''http://www.pathe.nl/film/3/heat''))), kw_id = None\<rparr>
           = Inr (5, Some (Finite 8))"
    unfolding demo_titles(2) by (rule demo_rating_by_title(2))
  have u: "imdb_url 7 = ustr ''http://imdb.com/title/tt7''"
    by (simp add: imdb_url_def str_of_int_def ustr_def)
  have n: "\<not> special_in_skip None" by (simp add: special_in_skip_def)
  show "process_movie_item demo_env (ustr ''http://www.pathe.nl/film/1/amelie'')
     = [Call ''get_movie_special'', Call ''get_movie_title'', Call ''get_movie_imdb_rating'',
        Print (ustr ''http://www.pathe.nl/film/1/amelie'') (ustr ''http://imdb.com/title/tt7''),
        Append (ustr ''http://www.pathe.nl/film/1/amelie'', ustr ''http://imdb.com/title/tt7''),
        TaskDone]"
    using n
    by (simp add: process_movie_item_def demo_movie_url(1) demo_pages demo_specials(1) t u)
  show "process_movie_item demo_env (ustr ''http://www.pathe.nl/film/3/heat'')
     = [Call ''get_movie_special'', Call ''get_movie_title'', Call ''get_movie_imdb_rating'',
        TaskDone]"
    using n
    by (simp add: process_movie_item_def demo_movie_url(3) demo_pages demo_specials(3) h)
qed

theorem process_movie_appends_witness:
  "appended_in_turn demo_env 0 0
     [MovieThread 0, MovieThread 0, Main, MovieThread 0, MovieThread 0, MovieThread 0,
      MovieThread 0, MovieThread 0]
     (start_state 1 1\<lparr>movies_queue := [Some (ustr ''http://www.pathe.nl/film/1/amelie'')],
                      movies_unfinished := 1\<rparr>)
     = [(ustr ''http://www.pathe.nl/film/1/amelie'', ustr ''http://imdb.com/title/tt7'')]
   \<and> appended_in_turn demo_env 0 0
     [MovieThread 0, MovieThread 0, MovieThread 0, MovieThread 0, MovieThread 0]
     (start_state 1 1\<lparr>movies_queue := [Some (ustr ''http://www.pathe.nl/film/3/heat'')],
                      movies_unfinished := 1\<rparr>)
     = []"
proof (intro conjI)
  let ?u = "ustr ''http://www.pathe.nl/film/1/amelie''"
  let ?s = "start_state 1 1\<lparr>movies_queue := [Some ?u], movies_unfinished := 1\<rparr>"
  let ?sched = "[MovieThread 0, Main, MovieThread 0, MovieThread 0, MovieThread 0,
      MovieThread 0, MovieThread 0]"
  have i: "0 < length (movie_threads ?s)" and idle: "movie_threads ?s ! 0 = Idle"
    and q: "movies_queue ?s = Some ?u # []" and ne: "?u \<noteq> []"
    by (simp_all add: start_state_def ustr_def)
  have "\<exists>s'. run demo_env 0 (MovieThread 0 # ?sched) ?s = Some s'
              \<and> \<not> busy (movie_threads s' ! 0)"
    using ne by (simp add: start_state_def movie_step_def main_step_def demo_turns(1))
  then obtain s' where r: "run demo_env 0 (MovieThread 0 # ?sched) ?s = Some s'"
    and nb: "\<not> busy (movie_threads s' ! 0)" by blast
  have one: "appended_in_turn demo_env 0 0 (MovieThread 0 # ?sched) ?s = []
             \<or> (\<exists>r'. appended_in_turn demo_env 0 0 (MovieThread 0 # ?sched) ?s = [r'])"
    and iff: "\<And>r. appended_in_turn demo_env 0 0 (MovieThread 0 # ?sched) ?s = [r] \<longleftrightarrow>
      (\<exists>groups movie doc special imdb_id rating.
               re_match movie_url_re ?u = Some groups
               \<and> requests_get demo_env ?u = Inr movie
               \<and> lh_fromstring demo_env movie = Inr doc
               \<and> get_movie_special doc = Inr special \<and> \<not> special_in_skip special
               \<and> get_movie_imdb_rating demo_env
                    \<lparr>kw_title = Some (get_movie_title doc), kw_id = None\<rparr>
                   = Inr (imdb_id, Some rating)
               \<and> float_gt_int rating 8
               \<and> r = (?u, imdb_url imdb_id))"
    using process_movie_appends_iff_rating_above_8[OF i idle q ne r nb] by blast+
  have "appended (process_movie_item demo_env ?u)
          = [(?u, ustr ''http://imdb.com/title/tt7'')]"
    using demo_appended by blast
  then have "\<exists>groups movie doc special imdb_id rating.
               re_match movie_url_re ?u = Some groups
               \<and> requests_get demo_env ?u = Inr movie
               \<and> lh_fromstring demo_env movie = Inr doc
               \<and> get_movie_special doc = Inr special \<and> \<not> special_in_skip special
               \<and> get_movie_imdb_rating demo_env
                    \<lparr>kw_title = Some (get_movie_title doc), kw_id = None\<rparr>
                   = Inr (imdb_id, Some rating)
               \<and> float_gt_int rating 8
               \<and> (?u, ustr ''http://imdb.com/title/tt7'') = (?u, imdb_url imdb_id)"
    using appended_iff_rating_above_8
            [of demo_env ?u "(?u, ustr ''http://imdb.com/title/tt7'')"] by blast
  then show "appended_in_turn demo_env 0 0 (MovieThread 0 # ?sched) ?s
             = [(?u, ustr ''http://imdb.com/title/tt7'')]"
    using iff[of "(?u, ustr ''http://imdb.com/title/tt7'')"] by blast
next
  let ?u = "ustr ''http://www.pathe.nl/film/3/heat''"
  let ?s = "start_state 1 1\<lparr>movies_queue := [Some ?u], movies_unfinished := 1\<rparr>"
  let ?sched = "[MovieThread 0, MovieThread 0, MovieThread 0, MovieThread 0]"
  have i: "0 < length (movie_threads ?s)" and idle: "movie_threads ?s ! 0 = Idle"
    and q: "movies_queue ?s = Some ?u # []" and ne: "?u \<noteq> []"
    by (simp_all add: start_state_def ustr_def)
  have "\<exists>s'. run demo_env 0 (MovieThread 0 # ?sched) ?s = Some s'
              \<and> \<not> busy (movie_threads s' ! 0)"
    using ne by (simp add: start_state_def movie_step_def main_step_def demo_turns(2))
  then obtain s' where r: "run demo_env 0 (MovieThread 0 # ?sched) ?s = Some s'"
    and nb: "\<not> busy (movie_threads s' ! 0)" by blast
  have one: "appended_in_turn demo_env 0 0 (MovieThread 0 # ?sched) ?s = []
             \<or> (\<exists>r'. appended_in_turn demo_env 0 0 (MovieThread 0 # ?sched) ?s = [r'])"
    and iff: "\<And>r. appended_in_turn demo_env 0 0 (MovieThread 0 # ?sched) ?s = [r] \<longleftrightarrow>
      (\<exists>groups movie doc special imdb_id rating.
               re_match movie_url_re ?u = Some groups
               \<and> requests_get demo_env ?u = Inr movie
               \<and> lh_fromstring demo_env movie = Inr doc
               \<and> get_movie_special doc = Inr special \<and> \<not> special_in_skip special
               \<and> get_movie_imdb_rating demo_env
                    \<lparr>kw_title = Some (get_movie_title doc), kw_id = None\<rparr>
                   = Inr (imdb_id, Some rating)
               \<and> float_gt_int rating 8
               \<and> r = (?u, imdb_url imdb_id))"
    using process_movie_appends_iff_rating_above_8[OF i idle q ne r nb] by blast+
  have "appended (process_movie_item demo_env ?u) = []"
    using demo_appended by blast
  then have "\<And>r. appended_in_turn demo_env 0 0 (MovieThread 0 # ?sched) ?s \<noteq> [r]"
    using iff appended_iff_rating_above_8[of demo_env ?u] by (metis list.distinct(1))
  then show "appended_in_turn demo_env 0 0 (MovieThread 0 # ?sched) ?s = []"
    using one by blast
qed

text \<open>
  Claim C2.  When the page at \<open>url\<close> was fetched and parsed and its special status is
  one of the five of \<open>SKIP_SPECIAL\<close>, the turn of the detail worker consists of the
  extraction of that status and \<open>task_done()\<close>: it extracts no title, resolves no
  rating and appends nothing to \<open>result_list\<close>, whatever the film database would
  answer.
\<close>

theorem process_movie_skips_special:
  assumes "re_match movie_url_re url = Some groups"
    and "requests_get env url = Inr movie"
    and "lh_fromstring env movie = Inr doc"
    and "get_movie_special doc = Inr (Some special)"
    and "List.member SKIP_SPECIAL special"
  shows "process_movie_item env url = [Call ''get_movie_special'', TaskDone]
         \<and> Call ''get_movie_title'' \<notin> set (process_movie_item env url)
         \<and> Call ''get_movie_imdb_rating'' \<notin> set (process_movie_item env url)
         \<and> appended (process_movie_item env url) = []"
proof -
  have "process_movie_item env url = [Call ''get_movie_special'', TaskDone]"
    using assms by (simp add: process_movie_item_def special_in_skip_def)
  then show ?thesis by simp
qed

theorem process_movie_skips_special_witness:
  "process_movie_item demo_env (ustr ''http://www.pathe.nl/film/2/tosca'')
     = [Call ''get_movie_special'', TaskDone]
   \<and> appended (process_movie_item demo_env (ustr ''http://www.pathe.nl/film/2/tosca'')) = []"
proof -
  have m: "List.member SKIP_SPECIAL (ustr ''Path'' @ [233] @ ustr ''Opera'')"
    by (simp add: SKIP_SPECIAL_def)
  show ?thesis
    using process_movie_skips_special[OF demo_movie_url(2) demo_pages(1) demo_pages(2)
            demo_specials(2) m]
    by blast
qed

section \<open>Extractors on a page without their element\<close>

lemma extractors_on_absent_page:
  "get_movie_special absent_doc = Inr None"
  "get_movie_title absent_doc = []"
  "get_movie_genres env absent_doc = Inr None"
  "get_movie_duration absent_doc = None"
  "get_movie_language env absent_doc = Inr None"
  "get_movie_restrictions absent_doc = Inr []"
  "get_movie_technologies absent_doc = Inr None"
  "get_movie_rating env absent_doc = Inr None"
  "get_movie_directors_cast absent_doc = Inr ([], [])"
  by (simp_all add: absent_doc_def get_movie_special_def get_movie_title_def title_xpath_def
        re_match_def title_re_def get_movie_genres_def get_movie_duration_def py_strip_def
        duration_re_def lits_def get_movie_language_def get_movie_restrictions_def
        get_movie_technologies_def get_movie_rating_def get_movie_directors_cast_def)

text \<open>
  Claim C7 holds for nine of the ten extractors (\<open>extractors_on_absent_page\<close>) and fails
  for \<open>get_movie_release_date\<close>: on a page without a release date the pattern does not
  match the empty string, and the call of \<open>groups()\<close> on \<open>None\<close> raises
  \<open>AttributeError\<close>.
\<close>

theorem get_movie_release_date_absent:
  "get_movie_release_date absent_doc = Inl AttributeError"
  by (simp add: get_movie_release_date_def absent_doc_def re_match_def release_date_re_def)

section \<open>Dates of showtimes\<close>

lemma reparse_same:
  "(case s of Inl e \<Rightarrow> Inl e
    | Inr x \<Rightarrow> if P x then (case s of Inl e \<Rightarrow> Inl e | Inr y \<Rightarrow> Inr (DateTime y))
               else Inr (DateTime x))
   = (case s of Inl e \<Rightarrow> Inl e | Inr x \<Rightarrow> Inr (DateTime x))"
  by (cases s) auto

lemma normalize_date_ignores_comparison:
  "normalize_date g now1 now2 day_name = normalize_date g now1 now2' day_name"
  by (simp add: normalize_date_def Let_def reparse_same del: str_of_nat.simps
        cong: if_cong sum.case_cong option.case_cong)

lemmas date_simps =
  normalize_date_def DAYS_OF_WEEK_def MONTHS_SHORT_def py_index_def re_match_def
  precise_date_re_def strptime_dmY_def strptime_dmY_re_def strptime_d_def strptime_m_def
  ustr_def py_int_def py_strip_def py_isspace_def py_decimal_def decimal_runs_def
  valid_ymd_def days_in_month_def is_leap_def dt_less_def dt_fields_def

text \<open>
  Claim C4 fails on the code.  With the clock at 2024-01-10 the label
  \<open>woensdag 27 mei\<close> gives 2024-05-27, as the claim says.  With the clock at 2024-06-10
  that date is in the past, the source adds one to \<open>year\<close> and then parses the string
  it had built from the old year again: the result is 2024-05-27 once more, not a date
  of the following year.  By \<open>normalize_date_ignores_comparison\<close> this is so for every
  label and every clock: the comparison has no effect on the result.
\<close>

theorem normalize_date_never_rolls_over:
  "normalize_date g
     \<lparr>dt_year = 2024, dt_month = 1, dt_day = 10, dt_hour = 12, dt_minute = 0, dt_second = 0,
      dt_microsecond = 0\<rparr>
     \<lparr>dt_year = 2024, dt_month = 1, dt_day = 10, dt_hour = 12, dt_minute = 0, dt_second = 0,
      dt_microsecond = 0\<rparr>
     (ustr ''woensdag 27 mei'')
   = Inr (DateTime \<lparr>dt_year = 2024, dt_month = 5, dt_day = 27, dt_hour = 0, dt_minute = 0,
                     dt_second = 0, dt_microsecond = 0\<rparr>)
   \<and> normalize_date g
     \<lparr>dt_year = 2024, dt_month = 6, dt_day = 10, dt_hour = 12, dt_minute = 0, dt_second = 0,
      dt_microsecond = 0\<rparr>
     \<lparr>dt_year = 2024, dt_month = 6, dt_day = 10, dt_hour = 12, dt_minute = 0, dt_second = 0,
      dt_microsecond = 0\<rparr>
     (ustr ''woensdag 27 mei'')
   = Inr (DateTime \<lparr>dt_year = 2024, dt_month = 5, dt_day = 27, dt_hour = 0, dt_minute = 0,
                     dt_second = 0, dt_microsecond = 0\<rparr>)"
  by (simp add: date_simps)

lemma day_names:
  assumes "i < 7"
  shows "DAYS_OF_WEEK ! i \<noteq> ustr ''vandaag''" "DAYS_OF_WEEK ! i \<noteq> ustr ''morgen''"
    "List.member DAYS_OF_WEEK (DAYS_OF_WEEK ! i)"
    "py_index DAYS_OF_WEEK (DAYS_OF_WEEK ! i) = Inr i"
proof -
  have "i = 0 \<or> i = 1 \<or> i = 2 \<or> i = 3 \<or> i = 4 \<or> i = 5 \<or> i = 6"
    using assms by arith
  then show "DAYS_OF_WEEK ! i \<noteq> ustr ''vandaag''" "DAYS_OF_WEEK ! i \<noteq> ustr ''morgen''"
    "List.member DAYS_OF_WEEK (DAYS_OF_WEEK ! i)"
    "py_index DAYS_OF_WEEK (DAYS_OF_WEEK ! i) = Inr i"
    by (auto simp: DAYS_OF_WEEK_def ustr_def py_index_def)
qed

lemma next_weekday_ahead:
  assumes D: "is_date D" "D + 7 \<le> date_max" and g: "TODAY g = D" and i: "i < 7"
  shows "\<exists>k. 1 \<le> k \<and> k \<le> 7 \<and> next_weekday g (int i) = Inr (D + k)
           \<and> weekday (D + k) = int i \<and> (k = 7 \<longleftrightarrow> weekday D = int i)"
proof -
  define w where "w = weekday D"
  define q where "q = (D + 6) div 7"
  define k where "k = (if int i - w \<le> 0 then int i - w + 7 else int i - w)"
  have w: "0 \<le> w" "w < 7" by (simp_all add: w_def weekday_def)
  have dq: "D + 6 = 7 * q + w" by (simp add: w_def q_def weekday_def)
  have i': "0 \<le> int i" "int i < 7" using i by simp_all
  have k: "1 \<le> k" "k \<le> 7" using w i' unfolding k_def by (simp_all split: if_splits)
  have "1 \<le> D" "D \<le> date_max" using D(1) by (simp_all add: is_date_def)
  then have "is_date (D + k)" using D(2) k unfolding is_date_def by linarith
  then have add: "date_add_days D k = Inr (D + k)" by (simp add: date_add_days_def)
  have "next_weekday g (int i) = date_add_days D k"
    unfolding next_weekday_def g Let_def k_def w_def by (rule refl)
  then have n: "next_weekday g (int i) = Inr (D + k)" using add by (simp only:)
  have "D + k + 6 = int i + 7 * (q + (if int i - w \<le> 0 then 1 else 0))"
    using dq unfolding k_def by (simp split: if_splits)
  then have "(D + k + 6) mod 7 = int i mod 7"
    by (simp only: mod_mult_self2)
  then have wd: "weekday (D + k) = int i"
    using i' by (simp add: weekday_def add.commute add.left_commute)
  have "k = 7 \<longleftrightarrow> w = int i" using w i' unfolding k_def by (cases "int i - w \<le> 0") auto
  then have s: "k = 7 \<longleftrightarrow> weekday D = int i" by (simp only: w_def)
  show ?thesis using k n wd s by blast
qed

text \<open>
  Claim C5.  Let \<open>D\<close> be the current date, with the seventh day after it still a date
  (\<open>D\<close> is at most 9999-12-24).  Then the module loads, \<open>vandaag\<close> gives \<open>D\<close>, \<open>morgen\<close>
  gives the day after \<open>D\<close>, and the name of the weekday number \<open>i\<close> gives the date
  \<open>k\<close> days after \<open>D\<close> for some \<open>k\<close> from 1 to 7, on which the weekday is \<open>i\<close>; \<open>k\<close> is 7
  exactly when \<open>D\<close> itself falls on that weekday.
\<close>

theorem normalize_date_relative_labels:
  assumes "is_date D" and "D + 7 \<le> date_max"
  shows "\<exists>g. module_globals D = Inr g
           \<and> normalize_date g now1 now2 (ustr ''vandaag'') = Inr (Date D)
           \<and> normalize_date g now1 now2 (ustr ''morgen'') = Inr (Date (D + 1))
           \<and> (\<forall>i<7. \<exists>k. 1 \<le> k \<and> k \<le> 7
                 \<and> normalize_date g now1 now2 (DAYS_OF_WEEK ! i) = Inr (Date (D + k))
                 \<and> weekday (D + k) = int i
                 \<and> (k = 7 \<longleftrightarrow> weekday D = int i))"
proof -
  let ?g = "\<lparr>TODAY = D, TOMORROW = D + 1\<rparr>"
  have "is_date (D + 1)" using assms by (simp add: is_date_def)
  then have m: "module_globals D = Inr ?g"
    by (simp add: module_globals_def date_add_days_def)
  have a: "normalize_date ?g now1 now2 (ustr ''vandaag'') = Inr (Date D)"
    by (simp add: normalize_date_def)
  have b: "normalize_date ?g now1 now2 (ustr ''morgen'') = Inr (Date (D + 1))"
    by (simp add: normalize_date_def ustr_def)
  have c: "\<exists>k. 1 \<le> k \<and> k \<le> 7
                 \<and> normalize_date ?g now1 now2 (DAYS_OF_WEEK ! i) = Inr (Date (D + k))
                 \<and> weekday (D + k) = int i
                 \<and> (k = 7 \<longleftrightarrow> weekday D = int i)" if i: "i < 7" for i
  proof -
    obtain k where k: "1 \<le> k" "k \<le> 7" "next_weekday ?g (int i) = Inr (D + k)"
      "weekday (D + k) = int i" "k = 7 \<longleftrightarrow> weekday D = int i"
      using next_weekday_ahead[OF assms, of ?g i] i by auto
    have "normalize_date ?g now1 now2 (DAYS_OF_WEEK ! i) = Inr (Date (D + k))"
      unfolding normalize_date_def using day_names[OF i] k(3) by simp
    then show ?thesis using k by blast
  qed
  show ?thesis using m a b c by blast
qed

theorem normalize_date_relative_labels_witness:
  "\<forall>now1 now2.
     module_globals 739047 = Inr \<lparr>TODAY = 739047, TOMORROW = 739048\<rparr>
     \<and> weekday 739047 = 0
     \<and> normalize_date \<lparr>TODAY = 739047, TOMORROW = 739048\<rparr> now1 now2 (ustr ''vandaag'')
         = Inr (Date 739047)
     \<and> normalize_date \<lparr>TODAY = 739047, TOMORROW = 739048\<rparr> now1 now2 (ustr ''morgen'')
         = Inr (Date 739048)
     \<and> normalize_date \<lparr>TODAY = 739047, TOMORROW = 739048\<rparr> now1 now2 (ustr ''maandag'')
         = Inr (Date 739054)
     \<and> normalize_date \<lparr>TODAY = 739047, TOMORROW = 739048\<rparr> now1 now2 (ustr ''woensdag'')
         = Inr (Date 739049)"
proof (intro allI)
  fix now1 now2
  let ?g = "\<lparr>TODAY = 739047, TOMORROW = 739048\<rparr>"
  have d: "is_date 739047" "739047 + 7 \<le> date_max"
    by (simp_all add: is_date_def date_max_def)
  obtain g where g: "module_globals 739047 = Inr g"
    and a: "normalize_date g now1 now2 (ustr ''vandaag'') = Inr (Date 739047)"
    and b: "normalize_date g now1 now2 (ustr ''morgen'') = Inr (Date (739047 + 1))"
    and c: "\<forall>i<7. \<exists>k. 1 \<le> k \<and> k \<le> 7
                 \<and> normalize_date g now1 now2 (DAYS_OF_WEEK ! i) = Inr (Date (739047 + k))
                 \<and> weekday (739047 + k) = int i
                 \<and> (k = 7 \<longleftrightarrow> weekday 739047 = int i)"
    using normalize_date_relative_labels[OF d, of now1 now2] by blast
  have m: "module_globals 739047 = Inr ?g"
    by (simp add: module_globals_def date_add_days_def is_date_def date_max_def)
  then have geq: "g = ?g" using g by simp
  have w: "weekday 739047 = 0" by (simp add: weekday_def)
  have n0: "DAYS_OF_WEEK ! 0 = ustr ''maandag''" and n2: "DAYS_OF_WEEK ! 2 = ustr ''woensdag''"
    by (simp_all add: DAYS_OF_WEEK_def)
  obtain k0 where k0: "normalize_date g now1 now2 (DAYS_OF_WEEK ! 0) = Inr (Date (739047 + k0))"
    "k0 = 7 \<longleftrightarrow> weekday 739047 = int 0"
    using c[rule_format, of 0] by auto
  then have "k0 = 7" using w by simp
  then have mon: "normalize_date ?g now1 now2 (ustr ''maandag'') = Inr (Date 739054)"
    using k0(1) geq n0 by simp
  obtain k2 where k2: "1 \<le> k2" "k2 \<le> 7"
    "normalize_date g now1 now2 (DAYS_OF_WEEK ! 2) = Inr (Date (739047 + k2))"
    "weekday (739047 + k2) = int 2"
    using c[rule_format, of 2] by auto
  have "k2 = 2" using k2(1,2,4) unfolding weekday_def by presburger
  then have wed: "normalize_date ?g now1 now2 (ustr ''woensdag'') = Inr (Date 739049)"
    using k2(3) geq n2 by simp
  show "module_globals 739047 = Inr ?g
     \<and> weekday 739047 = 0
     \<and> normalize_date ?g now1 now2 (ustr ''vandaag'') = Inr (Date 739047)
     \<and> normalize_date ?g now1 now2 (ustr ''morgen'') = Inr (Date 739048)
     \<and> normalize_date ?g now1 now2 (ustr ''maandag'') = Inr (Date 739054)
     \<and> normalize_date ?g now1 now2 (ustr ''woensdag'') = Inr (Date 739049)"
    using m w a b mon wed geq by simp
qed

end
